theory Spec2Isabelle
  imports Main "HOL-Library.Word" "HOL-Library.Extended_Nat"
begin

unbundle bit_operations_syntax

section \<open>Machine types and constants of \<open>main.c\<close>\<close>

type_synonym u8 = "8 word"
type_synonym u16 = "16 word"
type_synonym u32 = "32 word"
type_synonym u64 = "64 word"

text \<open>Pointers and Vulkan handles are numbers; \<open>0\<close> is \<open>nullptr\<close> and \<open>VK_NULL_HANDLE\<close>.\<close>

type_synonym pointer = nat
type_synonym handle = nat

definition MAX_TMP_BUFFER :: u16 where
  "MAX_TMP_BUFFER = 256"

definition MAX_SWAPCHAIN_IMAGES :: u8 where
  "MAX_SWAPCHAIN_IMAGES = 10"

definition UINT32_MAX :: u32 where
  "UINT32_MAX = 4294967295"

definition UINT64_MAX :: u64 where
  "UINT64_MAX = 18446744073709551615"

definition VK_TRUE :: u32 where
  "VK_TRUE = 1"

definition VK_QUEUE_GRAPHICS_BIT :: u32 where
  "VK_QUEUE_GRAPHICS_BIT = 1"

definition VK_FORMAT_B8G8R8A8_SRGB :: nat where
  "VK_FORMAT_B8G8R8A8_SRGB = 50"

definition VK_COLOR_SPACE_SRGB_NONLINEAR_KHR :: nat where
  "VK_COLOR_SPACE_SRGB_NONLINEAR_KHR = 0"

definition VK_KHR_SWAPCHAIN_EXTENSION_NAME :: string where
  "VK_KHR_SWAPCHAIN_EXTENSION_NAME = ''VK_KHR_swapchain''"

datatype VkSharingMode = VK_SHARING_MODE_EXCLUSIVE | VK_SHARING_MODE_CONCURRENT

text \<open>
  Every failing \<open>return false\<close> of the source prints its own message to \<open>stderr\<close>;
  the constructors below name the messages of the checks modelled as values.
\<close>

datatype error =
    Count_out_of_bounds      \<comment> \<open>"... is out of bounds"\<close>
  | None_found               \<comment> \<open>"no devices found", "no surface formats found", "no present modes found"\<close>
  | No_surface_format        \<comment> \<open>"no surface format found"\<close>
  | Min_image_count_too_high \<comment> \<open>"Minimum surface image count is too high"\<close>

section \<open>Surface capabilities, swap extent and image count\<close>

record VkExtent2D =
  width :: u32
  height :: u32

record VkSurfaceCapabilitiesKHR =
  minImageCount :: u32
  maxImageCount :: u32
  currentExtent :: VkExtent2D
  minImageExtent :: VkExtent2D
  maxImageExtent :: VkExtent2D
  currentTransform :: u32

text \<open>
  Lines 453--479 of \<open>vulkan_swapchain_create\<close>. The framebuffer size reported by
  \<open>glfwGetFramebufferSize\<close> is a pair of C \<open>int\<close>s; assigning an \<open>int\<close> to the
  \<open>uint32_t\<close> field converts it modulo \<open>2 ^ 32\<close>, which is \<open>word_of_int\<close>. The
  local variables \<open>min\<close> and \<open>max\<close> are assigned twice in the source; they are
  \<open>min_w\<close>, \<open>max_w\<close> and \<open>min_h\<close>, \<open>max_h\<close> here.
\<close>

definition swapchain_image_extent :: "VkSurfaceCapabilitiesKHR \<Rightarrow> int \<times> int \<Rightarrow> VkExtent2D" where
  "swapchain_image_extent surface_capabilities framebuffer_size =
     (if width (currentExtent surface_capabilities) \<noteq> UINT32_MAX
      then currentExtent surface_capabilities
      else
        let min_w = width (minImageExtent surface_capabilities);
            max_w = width (maxImageExtent surface_capabilities);
            w0 = (word_of_int (fst framebuffer_size) :: u32);
            w1 = (if w0 < min_w then min_w else if w0 > max_w then max_w else w0);
            min_h = height (minImageExtent surface_capabilities);
            max_h = height (maxImageExtent surface_capabilities);
            h0 = (word_of_int (snd framebuffer_size) :: u32);
            h1 = (if h0 < min_h then min_h else if h0 > min_h then max_h else h0)
        in \<lparr>width = w1, height = h1\<rparr>)"

text \<open>
  Lines 481--496 of \<open>vulkan_swapchain_create\<close>: the number of images requested from
  the swapchain. \<open>MAX_SWAPCHAIN_IMAGES\<close> is a \<open>uint8_t\<close>, promoted for the comparison
  with the \<open>uint32_t\<close> counts.
\<close>

definition swapchain_image_count :: "VkSurfaceCapabilitiesKHR \<Rightarrow> error + u32" where
  "swapchain_image_count surface_capabilities =
     (if minImageCount surface_capabilities > ucast MAX_SWAPCHAIN_IMAGES
      then Inl Min_image_count_too_high
      else
        let image_count0 = minImageCount surface_capabilities + 1;
            image_count1 =
              (if maxImageCount surface_capabilities > 0 \<and>
                  image_count0 > maxImageCount surface_capabilities
               then maxImageCount surface_capabilities else image_count0);
            image_count2 =
              (if image_count1 > ucast MAX_SWAPCHAIN_IMAGES
               then ucast MAX_SWAPCHAIN_IMAGES else image_count1)
        in Inr image_count2)"

section \<open>The world outside the program: memory, handles and the log of calls\<close>

datatype kind =
    Window | Instance | Surface | Device | Swapchain | ImageView | RenderPass
  | ShaderModule | PipelineLayout | Pipeline | Framebuffer | CommandPool
  | Semaphore | Fence

record VkDeviceQueueCreateInfo =
  queueFamilyIndex :: u32
  queueCount :: u32

record VkDeviceCreateInfo =
  pQueueCreateInfos :: "VkDeviceQueueCreateInfo list"
  queueCreateInfoCount :: nat
  ppEnabledExtensionNames :: "string list"
  enabledExtensionCount :: nat

text \<open>
  \<open>VkSwapchainCreateInfoKHR\<close>, without the fields the source sets to a fixed enumerator
  (\<open>sType\<close>, \<open>imageUsage\<close>, \<open>compositeAlpha\<close>, \<open>presentMode\<close>). \<open>sci_surface\<close> and
  \<open>sci_minImageCount\<close> are the fields \<open>surface\<close> and \<open>minImageCount\<close> (names taken
  by other records here). A null \<open>pQueueFamilyIndices\<close> is the empty list.
\<close>

record VkSwapchainCreateInfoKHR =
  sci_surface :: handle
  sci_minImageCount :: u32
  imageFormat :: nat
  imageColorSpace :: nat
  imageExtent :: VkExtent2D
  imageArrayLayers :: u32
  imageSharingMode :: VkSharingMode
  queueFamilyIndexCount :: nat
  pQueueFamilyIndices :: "u32 list"
  preTransform :: u32
  clipped :: u32
  oldSwapchain :: handle

text \<open>
  The log records, in program order: every successful allocation or object creation
  with the pointer or handle it returned, every call that frees or destroys (also with
  a null argument, which the callee ignores), the two creation calls whose descriptor a
  property is about, and every call of a frame.
\<close>

datatype call =
    Malloc nat pointer
  | Free pointer
  | Create kind handle
  | Destroy kind handle
  | AllocateCommandBuffer handle handle
  | GlfwInit
  | GlfwTerminate
  | VkCreateDevice_with VkDeviceCreateInfo
  | VkCreateSwapchainKHR_with VkSwapchainCreateInfoKHR
  | VkWaitForFences handle u64
  | VkResetFences handle
  | VkAcquireNextImageKHR handle u64 handle
  | VkResetCommandBuffer handle
  | VkBeginCommandBuffer handle
  | VkCmdBeginRenderPass handle handle handle
  | VkCmdBindPipeline handle handle
  | VkCmdSetViewport handle VkExtent2D
  | VkCmdSetScissor handle VkExtent2D
  | VkCmdDraw handle nat nat nat nat
  | VkCmdEndRenderPass handle
  | VkEndCommandBuffer handle
  | VkQueueSubmit handle handle handle handle handle
  | VkQueuePresentKHR handle handle handle u32

text \<open>
  The heap is the list of all blocks ever allocated: the block at address \<open>p > 0\<close> is
  entry \<open>p - 1\<close>, \<open>Some\<close> of its bytes while it is live and \<open>None\<close> once freed. Handles
  are handed out by a counter.
\<close>

record world =
  heap :: "u8 list option list"
  next_handle :: handle
  trace :: "call list"

definition log_call :: "call \<Rightarrow> world \<Rightarrow> world" where
  "log_call c w = w\<lparr>trace := trace w @ [c]\<rparr>"

definition block :: "world \<Rightarrow> pointer \<Rightarrow> u8 list option" where
  "block w p = (if 0 < p \<and> p \<le> length (heap w) then heap w ! (p - 1) else None)"

definition malloc :: "bool \<Rightarrow> nat \<Rightarrow> world \<Rightarrow> pointer \<times> world" where
  "malloc ok n w =
     (if ok
      then (Suc (length (heap w)),
            log_call (Malloc n (Suc (length (heap w))))
              (w\<lparr>heap := heap w @ [Some (replicate n 0)]\<rparr>))
      else (0, w))"

definition free :: "pointer \<Rightarrow> world \<Rightarrow> world" where
  "free p w =
     log_call (Free p)
       (if 0 < p \<and> p \<le> length (heap w) then w\<lparr>heap := (heap w)[p - 1 := None]\<rparr> else w)"

definition create :: "kind \<Rightarrow> world \<Rightarrow> handle \<times> world" where
  "create k w =
     (next_handle w, log_call (Create k (next_handle w)) (w\<lparr>next_handle := Suc (next_handle w)\<rparr>))"

definition destroy :: "kind \<Rightarrow> handle \<Rightarrow> world \<Rightarrow> world" where
  "destroy k h w = log_call (Destroy k h) w"

section \<open>\<open>file_read\<close>\<close>

text \<open>
  What the C library answers while one file is read: whether \<open>fopen\<close>, \<open>fseek\<close>,
  \<open>ftell\<close>, \<open>malloc\<close> and \<open>fread\<close> succeed, and the bytes of the file.
\<close>

record file_env =
  fopen_ok :: bool
  file_bytes :: "u8 list"
  fseek_ok :: bool
  ftell_ok :: bool
  malloc_ok :: bool
  fread_ok :: bool

text \<open>
  \<open>fclose(nullptr)\<close> is undefined behaviour: the path on which \<open>fopen\<close> fails jumps to
  \<open>cleanup\<close> and reaches it, so it does not return.
\<close>

datatype fault = Fclose_nullptr

text \<open>\<open>ftell\<close> returns the length of the file (the position after \<open>SEEK_END\<close>) or \<open>-1\<close>.\<close>

definition ftell :: "file_env \<Rightarrow> int" where
  "ftell f = (if ftell_ok f then int (length (file_bytes f)) else - 1)"

text \<open>
  \<open>fread(buffer, n, 1, file)\<close> after \<open>rewind\<close>: the number of whole items read,
  which is \<open>0\<close> when \<open>n\<close> is \<open>0\<close>, when the file is shorter than \<open>n\<close> or when
  reading fails.
\<close>

definition fread :: "file_env \<Rightarrow> pointer \<Rightarrow> nat \<Rightarrow> world \<Rightarrow> nat \<times> world" where
  "fread f buffer n w =
     (if fread_ok f \<and> 0 < n \<and> n \<le> length (file_bytes f)
      then (1, w\<lparr>heap := (heap w)[buffer - 1 := Some (take n (file_bytes f))]\<rparr>)
      else (0, w))"

text \<open>The label \<open>cleanup\<close> of \<open>file_read\<close>; \<open>file\<close> says whether the stream is non-null.\<close>

definition file_read_cleanup :: "bool \<Rightarrow> bool \<Rightarrow> pointer \<Rightarrow> world \<Rightarrow> fault + bool \<times> world" where
  "file_read_cleanup success file read_buffer w =
     (let w1 = (if \<not> success then free read_buffer w else w)
      in if file then Inr (success, w1) else Inl Fclose_nullptr)"

text \<open>
  The out-parameters \<open>*content\<close> and \<open>*content_size\<close> are passed in with the values
  the caller's variables hold and returned with the values they hold afterwards. The
  source compares the \<open>size_t\<close> \<open>file_size\<close> with \<open>-1\<close>; both sides convert to
  \<open>SIZE_MAX\<close>, so the test is the one on the \<open>long\<close> that \<open>ftell\<close> returned.
\<close>

definition file_read ::
  "file_env \<Rightarrow> world \<Rightarrow> pointer \<Rightarrow> nat \<Rightarrow> fault + bool \<times> world \<times> pointer \<times> nat" where
  "file_read f w content content_size =
     (let unchanged = (\<lambda>r. map_sum id (\<lambda>(success, w'). (success, w', content, content_size)) r) in
      if \<not> fopen_ok f then unchanged (file_read_cleanup False False 0 w)
      else if \<not> fseek_ok f then unchanged (file_read_cleanup False True 0 w)
      else
        let file_size = ftell f in
        if file_size = - 1 then unchanged (file_read_cleanup False True 0 w)
        else
          let (read_buffer, w1) = malloc (malloc_ok f) (nat file_size) w in
          if read_buffer = 0 then unchanged (file_read_cleanup False True read_buffer w1)
          else
            let (items, w2) = fread f read_buffer (nat file_size) w1 in
            if items \<noteq> 1 then unchanged (file_read_cleanup False True read_buffer w2)
            else
              map_sum id (\<lambda>(success, w'). (success, w', read_buffer, nat file_size))
                (file_read_cleanup True True read_buffer w2))"

section \<open>The driver and the context structure\<close>

text \<open>
  The calls that can fail. Image views and framebuffers are created per index, a shader
  module per code buffer, and \<open>vkCreateSemaphore\<close> is called twice (\<open>0\<close> for
  \<open>swapchain_image_available\<close>, \<open>1\<close> for \<open>render_finished\<close>).
\<close>

datatype fallible =
    glfwInit | glfwCreateWindow | vkCreateInstance | glfwCreateWindowSurface
  | vkCreateDevice | vkCreateSwapchainKHR | vkCreateImageView nat | vkCreateRenderPass
  | vkCreateShaderModule pointer | vkCreatePipelineLayout | vkCreateGraphicsPipelines
  | vkCreateFramebuffer nat | vkCreateCommandPool | vkAllocateCommandBuffers
  | vkCreateSemaphore nat | vkCreateFence

text \<open>
  What the driver, the window system and the file system answer during start-up:
  which calls succeed, the lists the enumeration calls report (a queue family is its
  \<open>queueFlags\<close>, a surface format its pair of \<open>format\<close> and \<open>colorSpace\<close>), the
  \<open>VkBool32\<close> that \<open>vkGetPhysicalDeviceSurfaceSupportKHR\<close> writes for a family, the
  surface capabilities, the framebuffer size in pixels, the images of the swapchain, the
  queue of a family and the two shader files.
\<close>

record driver =
  succeeds :: "fallible \<Rightarrow> bool"
  drv_layers :: "string list"
  drv_physical_devices :: "handle list"
  drv_queue_families :: "u32 list"
  drv_surface_support :: "nat \<Rightarrow> u32"
  drv_extensions :: "string list"
  drv_surface_formats :: "(nat \<times> nat) list"
  drv_present_modes :: "nat list"
  drv_surface_capabilities :: VkSurfaceCapabilitiesKHR
  drv_framebuffer_size :: "int \<times> int"
  drv_swapchain_images :: "handle list"
  drv_device_queue :: "u32 \<Rightarrow> handle"
  drv_shader_file :: "string \<Rightarrow> file_env"

text \<open>
  \<open>struct vulkan\<close>. The field \<open>instance\<close> is \<open>vk_instance\<close> here. The three arrays
  of \<open>MAX_SWAPCHAIN_IMAGES\<close> slots are lists of that length.
\<close>

record vulkan =
  application_name :: string
  enable_validation_layers :: bool
  window :: handle
  vk_instance :: handle
  surface :: handle
  physicaldevice :: handle
  device :: handle
  swapchain :: handle
  render_pass :: handle
  pipeline_layout :: handle
  graphics_pipeline :: handle
  command_pool :: handle
  command_buffer :: handle
  swapchain_image_format :: nat
  swapchain_extent :: VkExtent2D
  swapchain_images :: "handle list"
  swapchain_images_count :: nat
  swapchain_imageviews :: "handle list"
  swapchain_imageviews_count :: nat
  swapchain_framebuffers :: "handle list"
  swapchain_framebuffers_count :: nat
  graphics_queuefamily_index :: u32
  graphics_queue :: handle
  present_queuefamily_index :: u32
  present_queue :: handle
  swapchain_image_available :: handle
  render_finished :: handle
  frame_in_flight :: handle

section \<open>Bounded enumeration\<close>

text \<open>
  Each enumeration asks the driver for the count, compares it with \<open>MAX_TMP_BUFFER\<close>
  and then asks for the entries with that count as the capacity of the buffer. The count
  is the length of the driver's list. One definition per place in the source.
\<close>

text \<open>Lines 117--128, in \<open>vulkan_validationlayers_check\<close>.\<close>

definition enumerate_layers :: "driver \<Rightarrow> error + string list" where
  "enumerate_layers drv =
     (let layer_count = length (drv_layers drv) in
      if layer_count > unat MAX_TMP_BUFFER then Inl Count_out_of_bounds
      else Inr (take layer_count (drv_layers drv)))"

text \<open>Lines 217--232, in \<open>vulkan_physicaldevice_find\<close>.\<close>

definition enumerate_physicaldevices :: "driver \<Rightarrow> error + handle list" where
  "enumerate_physicaldevices drv =
     (let device_count = length (drv_physical_devices drv) in
      if device_count = 0 then Inl None_found
      else if device_count > unat MAX_TMP_BUFFER then Inl Count_out_of_bounds
      else Inr (take device_count (drv_physical_devices drv)))"

text \<open>Lines 242--257, in \<open>vulkan_queuefamily_find\<close>.\<close>

definition enumerate_queuefamilies :: "driver \<Rightarrow> error + u32 list" where
  "enumerate_queuefamilies drv =
     (let queuefamily_count = length (drv_queue_families drv) in
      if queuefamily_count > unat MAX_TMP_BUFFER then Inl Count_out_of_bounds
      else Inr (take queuefamily_count (drv_queue_families drv)))"

text \<open>Lines 316--331, in \<open>vulkan_device_create\<close>.\<close>

definition enumerate_extensions :: "driver \<Rightarrow> error + string list" where
  "enumerate_extensions drv =
     (let extension_count = length (drv_extensions drv) in
      if extension_count > unat MAX_TMP_BUFFER then Inl Count_out_of_bounds
      else Inr (take extension_count (drv_extensions drv)))"

text \<open>Lines 386--405, in \<open>vulkan_swapchain_create\<close>.\<close>

definition enumerate_surface_formats :: "driver \<Rightarrow> error + (nat \<times> nat) list" where
  "enumerate_surface_formats drv =
     (let surface_format_count = length (drv_surface_formats drv) in
      if surface_format_count = 0 then Inl None_found
      else if surface_format_count > unat MAX_TMP_BUFFER then Inl Count_out_of_bounds
      else Inr (take surface_format_count (drv_surface_formats drv)))"

text \<open>Lines 407--429, in \<open>vulkan_swapchain_create\<close>.\<close>

definition enumerate_present_modes :: "driver \<Rightarrow> error + nat list" where
  "enumerate_present_modes drv =
     (let present_mode_count = length (drv_present_modes drv) in
      if present_mode_count = 0 then Inl None_found
      else if present_mode_count > unat MAX_TMP_BUFFER then Inl Count_out_of_bounds
      else Inr (take present_mode_count (drv_present_modes drv)))"

section \<open>Instance, surface, physical device and queue families\<close>

definition vulkan_validationlayers_check :: "driver \<Rightarrow> string list \<Rightarrow> bool" where
  "vulkan_validationlayers_check drv validation_layers =
     (case enumerate_layers drv of
        Inl e \<Rightarrow> False
      | Inr available_layers \<Rightarrow>
          list_all (\<lambda>layer. list_ex (\<lambda>layerName. layer = layerName) available_layers)
            validation_layers)"

definition vulkan_instance_create :: "driver \<Rightarrow> world \<Rightarrow> vulkan \<Rightarrow> bool \<times> world \<times> vulkan" where
  "vulkan_instance_create drv w v =
     (let validation_layers = [''VK_LAYER_KHRONOS_validation''] in
      if enable_validation_layers v \<and> \<not> vulkan_validationlayers_check drv validation_layers
      then (False, w, v)
      else if \<not> succeeds drv vkCreateInstance then (False, w, v)
      else let (h, w1) = create Instance w in (True, w1, v\<lparr>vk_instance := h\<rparr>))"

definition vulkan_surface_create :: "driver \<Rightarrow> world \<Rightarrow> vulkan \<Rightarrow> bool \<times> world \<times> vulkan" where
  "vulkan_surface_create drv w v =
     (if \<not> succeeds drv glfwCreateWindowSurface then (False, w, v)
      else let (h, w1) = create Surface w in (True, w1, v\<lparr>surface := h\<rparr>))"

definition vulkan_physicaldevice_find :: "driver \<Rightarrow> world \<Rightarrow> vulkan \<Rightarrow> bool \<times> world \<times> vulkan" where
  "vulkan_physicaldevice_find drv w v =
     (case enumerate_physicaldevices drv of
        Inl e \<Rightarrow> (False, w, v)
      | Inr devices \<Rightarrow> (True, w, v\<lparr>physicaldevice := devices ! 0\<rparr>))"

text \<open>
  The two loops of \<open>vulkan_queuefamily_find\<close> run over the indices
  \<open>0 ..< queuefamily_count\<close> and stop at the first hit: that is \<open>find\<close> on the list of
  indices. An index is a \<open>uint32_t\<close>.
\<close>

definition vulkan_queuefamily_find :: "driver \<Rightarrow> world \<Rightarrow> vulkan \<Rightarrow> bool \<times> world \<times> vulkan" where
  "vulkan_queuefamily_find drv w v =
     (case enumerate_queuefamilies drv of
        Inl e \<Rightarrow> (False, w, v)
      | Inr queuefamilies \<Rightarrow>
          let queuefamily_count = length queuefamilies;
              graphics =
                find (\<lambda>i. queuefamilies ! i AND VK_QUEUE_GRAPHICS_BIT \<noteq> 0) [0..<queuefamily_count];
              v1 = (case graphics of
                      Some i \<Rightarrow> v\<lparr>graphics_queuefamily_index := word_of_nat i\<rparr>
                    | None \<Rightarrow> v);
              found_graphics_queuefamily = (graphics \<noteq> None);
              present =
                find (\<lambda>i. drv_surface_support drv i = VK_TRUE) [0..<queuefamily_count];
              v2 = (case present of
                      Some i \<Rightarrow> v1\<lparr>present_queuefamily_index := word_of_nat i\<rparr>
                    | None \<Rightarrow> v1);
              found_present_queuefamily = (present \<noteq> None)
          in (found_graphics_queuefamily \<and> found_present_queuefamily, w, v2))"

section \<open>The logical device\<close>

text \<open>Lines 290--314: the array of two queue descriptors and the count passed with it.\<close>

definition device_queue_create_infos :: "vulkan \<Rightarrow> VkDeviceQueueCreateInfo list \<times> nat" where
  "device_queue_create_infos v =
     (let queue_create_infos =
            [\<lparr>queueFamilyIndex = graphics_queuefamily_index v, queueCount = 1\<rparr>,
             \<lparr>queueFamilyIndex = present_queuefamily_index v, queueCount = 1\<rparr>];
          queue_create_infos_count = length queue_create_infos
      in if queueFamilyIndex (queue_create_infos ! 0) = queueFamilyIndex (queue_create_infos ! 1)
         then (queue_create_infos, 1)
         else (queue_create_infos, queue_create_infos_count))"

definition device_create_info :: "vulkan \<Rightarrow> VkDeviceCreateInfo" where
  "device_create_info v =
     (let (queue_create_infos, queue_create_infos_count) = device_queue_create_infos v;
          device_extensions = [VK_KHR_SWAPCHAIN_EXTENSION_NAME]
      in \<lparr>pQueueCreateInfos = queue_create_infos,
          queueCreateInfoCount = queue_create_infos_count,
          ppEnabledExtensionNames = device_extensions,
          enabledExtensionCount = length device_extensions\<rparr>)"

definition vulkan_device_create :: "driver \<Rightarrow> world \<Rightarrow> vulkan \<Rightarrow> bool \<times> world \<times> vulkan" where
  "vulkan_device_create drv w v =
     (case enumerate_extensions drv of
        Inl e \<Rightarrow> (False, w, v)
      | Inr available_extensions \<Rightarrow>
          let found_swapchain_extension =
                list_ex (\<lambda>extensionName. extensionName = VK_KHR_SWAPCHAIN_EXTENSION_NAME)
                  available_extensions
          in if \<not> found_swapchain_extension then (False, w, v)
             else
               let w1 = log_call (VkCreateDevice_with (device_create_info v)) w in
               if \<not> succeeds drv vkCreateDevice then (False, w1, v)
               else
                 let (h, w2) = create Device w1;
                     v1 = v\<lparr>device := h\<rparr>;
                     v2 = v1\<lparr>graphics_queue :=
                              drv_device_queue drv (graphics_queuefamily_index v1)\<rparr>;
                     v3 = v2\<lparr>present_queue :=
                              drv_device_queue drv (present_queuefamily_index v2)\<rparr>
                 in (True, w2, v3))"

section \<open>The swapchain\<close>

text \<open>Lines 436--451: the first reported format that is the required one.\<close>

definition find_surface_format :: "(nat \<times> nat) list \<Rightarrow> error + nat \<times> nat" where
  "find_surface_format surface_formats =
     (case find (\<lambda>(format, colorSpace).
                   format = VK_FORMAT_B8G8R8A8_SRGB \<and>
                   colorSpace = VK_COLOR_SPACE_SRGB_NONLINEAR_KHR) surface_formats of
        None \<Rightarrow> Inl No_surface_format
      | Some surface_format \<Rightarrow> Inr surface_format)"

text \<open>
  Lines 498--531: the array of the two queue family indices, its count, and the
  descriptor passed to \<open>vkCreateSwapchainKHR\<close>. The designated initialiser leaves
  \<open>queueFamilyIndexCount\<close> zero and \<open>pQueueFamilyIndices\<close> null; they are set only when
  the count is above one.
\<close>

definition swapchain_create_info ::
  "vulkan \<Rightarrow> VkSurfaceCapabilitiesKHR \<Rightarrow> nat \<times> nat \<Rightarrow> VkExtent2D \<Rightarrow> u32 \<Rightarrow> VkSwapchainCreateInfoKHR" where
  "swapchain_create_info v surface_capabilities surface_format image_extent image_count =
     (let queue_family_indices = [graphics_queuefamily_index v, present_queuefamily_index v];
          queue_family_indices_count =
            (if queue_family_indices ! 0 = queue_family_indices ! 1
             then 1 else length queue_family_indices);
          create_info =
            \<lparr>sci_surface = surface v,
             sci_minImageCount = image_count,
             imageFormat = fst surface_format,
             imageColorSpace = snd surface_format,
             imageExtent = image_extent,
             imageArrayLayers = 1,
             imageSharingMode = VK_SHARING_MODE_EXCLUSIVE,
             queueFamilyIndexCount = 0,
             pQueueFamilyIndices = [],
             preTransform = currentTransform surface_capabilities,
             clipped = VK_TRUE,
             oldSwapchain = swapchain v\<rparr>
      in if queue_family_indices_count > 1
         then create_info\<lparr>imageSharingMode := VK_SHARING_MODE_CONCURRENT,
                          pQueueFamilyIndices := queue_family_indices,
                          queueFamilyIndexCount := queue_family_indices_count\<rparr>
         else create_info)"

text \<open>
  \<open>vkGetSwapchainImagesKHR\<close> is given \<open>image_count\<close> as the capacity of
  \<open>swapchain_images\<close>: it writes that many handles, or all of them when the swapchain
  has fewer, and stores the number written in \<open>image_count\<close>.
\<close>

definition vulkan_swapchain_create :: "driver \<Rightarrow> world \<Rightarrow> vulkan \<Rightarrow> bool \<times> world \<times> vulkan" where
  "vulkan_swapchain_create drv w v =
     (case enumerate_surface_formats drv of
        Inl e \<Rightarrow> (False, w, v)
      | Inr surface_formats \<Rightarrow>
     (case enumerate_present_modes drv of
        Inl e \<Rightarrow> (False, w, v)
      | Inr present_modes \<Rightarrow>
     (let surface_capabilities = drv_surface_capabilities drv in
      case find_surface_format surface_formats of
        Inl e \<Rightarrow> (False, w, v)
      | Inr surface_format \<Rightarrow>
     (let image_extent = swapchain_image_extent surface_capabilities (drv_framebuffer_size drv) in
      case swapchain_image_count surface_capabilities of
        Inl e \<Rightarrow> (False, w, v)
      | Inr image_count \<Rightarrow>
     (let create_info =
            swapchain_create_info v surface_capabilities surface_format image_extent image_count;
          w1 = log_call (VkCreateSwapchainKHR_with create_info) w
      in if \<not> succeeds drv vkCreateSwapchainKHR then (False, w1, v)
         else
           let (h, w2) = create Swapchain w1;
               v1 = v\<lparr>swapchain := h\<rparr>;
               images = take (unat image_count) (drv_swapchain_images drv);
               v2 = v1\<lparr>swapchain_images := images @ drop (length images) (swapchain_images v1)\<rparr>;
               v3 = v2\<lparr>swapchain_images_count := length images\<rparr>;
               v4 = v3\<lparr>swapchain_image_format := fst surface_format\<rparr>;
               v5 = v4\<lparr>swapchain_extent := image_extent\<rparr>
           in (True, w2, v5))))))"

section \<open>Image views, render pass, pipeline, framebuffers, commands, synchronisation\<close>

text \<open>
  The loop of \<open>vulkan_imageviews_create\<close> over the indices it is given. An index
  stays below \<open>MAX_SWAPCHAIN_IMAGES\<close> on every path of \<open>vulkan_init\<close>, since
  \<open>swapchain_images_count\<close> is at most the image count requested.
\<close>

fun imageviews_loop :: "driver \<Rightarrow> nat list \<Rightarrow> world \<Rightarrow> vulkan \<Rightarrow> bool \<times> world \<times> vulkan" where
  "imageviews_loop drv [] w v = (True, w, v)"
| "imageviews_loop drv (i # rest) w v =
     (if \<not> succeeds drv (vkCreateImageView i) then (False, w, v)
      else
        let (h, w1) = create ImageView w
        in imageviews_loop drv rest w1 (v\<lparr>swapchain_imageviews := (swapchain_imageviews v)[i := h]\<rparr>))"

definition vulkan_imageviews_create :: "driver \<Rightarrow> world \<Rightarrow> vulkan \<Rightarrow> bool \<times> world \<times> vulkan" where
  "vulkan_imageviews_create drv w v =
     (let (ok, w1, v1) = imageviews_loop drv [0..<swapchain_images_count v] w v in
      if \<not> ok then (False, w1, v1)
      else (True, w1, v1\<lparr>swapchain_imageviews_count := swapchain_images_count v1\<rparr>))"

definition vulkan_shadermodule_create ::
  "driver \<Rightarrow> world \<Rightarrow> pointer \<Rightarrow> nat \<Rightarrow> handle \<Rightarrow> bool \<times> world \<times> handle" where
  "vulkan_shadermodule_create drv w code code_size shader_module =
     (if \<not> succeeds drv (vkCreateShaderModule code) then (False, w, shader_module)
      else let (h, w1) = create ShaderModule w in (True, w1, h))"

definition vulkan_renderpass_create :: "driver \<Rightarrow> world \<Rightarrow> vulkan \<Rightarrow> bool \<times> world \<times> vulkan" where
  "vulkan_renderpass_create drv w v =
     (if \<not> succeeds drv vkCreateRenderPass then (False, w, v)
      else let (h, w1) = create RenderPass w in (True, w1, v\<lparr>render_pass := h\<rparr>))"

text \<open>The label \<open>cleanup\<close> of \<open>vulkan_graphicspipeline_create\<close> (lines 890--896).\<close>

definition graphicspipeline_cleanup ::
  "bool \<Rightarrow> world \<Rightarrow> vulkan \<Rightarrow> pointer \<Rightarrow> pointer \<Rightarrow> handle \<Rightarrow> handle \<Rightarrow> bool \<times> world \<times> vulkan" where
  "graphicspipeline_cleanup success w v vertex_shader_code fragment_shader_code
       vertex_shadermodule fragment_shadermodule =
     (let w1 = destroy ShaderModule fragment_shadermodule w;
          w2 = destroy ShaderModule vertex_shadermodule w1;
          w3 = free fragment_shader_code w2;
          w4 = free vertex_shader_code w3
      in (success, w4, v))"

text \<open>
  \<open>vulkan_graphicspipeline_create\<close>. Every failure jumps to \<open>cleanup\<close>, except the
  failure of \<open>vkCreateGraphicsPipelines\<close> (line 885), which is a plain \<open>return false\<close>.
  The two size variables are not initialised in the source; they are \<open>0\<close> here and
  are read only after \<open>file_read\<close> has set them.
\<close>

definition vulkan_graphicspipeline_create ::
  "driver \<Rightarrow> world \<Rightarrow> vulkan \<Rightarrow> fault + bool \<times> world \<times> vulkan" where
  "vulkan_graphicspipeline_create drv w v =
     (case file_read (drv_shader_file drv ''./shaders/vertex.spv'') w 0 0 of
        Inl f \<Rightarrow> Inl f
      | Inr (ok1, w1, vertex_shader_code, vertex_shader_code_size) \<Rightarrow>
     if \<not> ok1 then Inr (graphicspipeline_cleanup False w1 v vertex_shader_code 0 0 0)
     else
     (case file_read (drv_shader_file drv ''./shaders/fragment.spv'') w1 0 0 of
        Inl f \<Rightarrow> Inl f
      | Inr (ok2, w2, fragment_shader_code, fragment_shader_code_size) \<Rightarrow>
     if \<not> ok2
     then Inr (graphicspipeline_cleanup False w2 v vertex_shader_code fragment_shader_code 0 0)
     else
     (case vulkan_shadermodule_create drv w2 vertex_shader_code vertex_shader_code_size 0 of
        (ok3, w3, vertex_shadermodule) \<Rightarrow>
     if \<not> ok3
     then Inr (graphicspipeline_cleanup False w3 v vertex_shader_code fragment_shader_code
                 vertex_shadermodule 0)
     else
     (case vulkan_shadermodule_create drv w3 fragment_shader_code fragment_shader_code_size 0 of
        (ok4, w4, fragment_shadermodule) \<Rightarrow>
     if \<not> ok4
     then Inr (graphicspipeline_cleanup False w4 v vertex_shader_code fragment_shader_code
                 vertex_shadermodule fragment_shadermodule)
     else if \<not> succeeds drv vkCreatePipelineLayout
     then Inr (graphicspipeline_cleanup False w4 v vertex_shader_code fragment_shader_code
                 vertex_shadermodule fragment_shadermodule)
     else
       let (layout, w5) = create PipelineLayout w4;
           v1 = v\<lparr>pipeline_layout := layout\<rparr>
       in if \<not> succeeds drv vkCreateGraphicsPipelines then Inr (False, w5, v1)
          else
            let (pipeline, w6) = create Pipeline w5;
                v2 = v1\<lparr>graphics_pipeline := pipeline\<rparr>
            in Inr (graphicspipeline_cleanup True w6 v2 vertex_shader_code fragment_shader_code
                      vertex_shadermodule fragment_shadermodule)))))"

fun framebuffers_loop :: "driver \<Rightarrow> nat list \<Rightarrow> world \<Rightarrow> vulkan \<Rightarrow> bool \<times> world \<times> vulkan" where
  "framebuffers_loop drv [] w v = (True, w, v)"
| "framebuffers_loop drv (i # rest) w v =
     (if \<not> succeeds drv (vkCreateFramebuffer i) then (False, w, v)
      else
        let (h, w1) = create Framebuffer w
        in framebuffers_loop drv rest w1
             (v\<lparr>swapchain_framebuffers := (swapchain_framebuffers v)[i := h]\<rparr>))"

definition vulkan_framebuffers_create :: "driver \<Rightarrow> world \<Rightarrow> vulkan \<Rightarrow> bool \<times> world \<times> vulkan" where
  "vulkan_framebuffers_create drv w v =
     (let (ok, w1, v1) = framebuffers_loop drv [0..<swapchain_imageviews_count v] w v in
      if \<not> ok then (False, w1, v1)
      else (True, w1, v1\<lparr>swapchain_framebuffers_count := swapchain_imageviews_count v1\<rparr>))"

definition vulkan_commandpool_create :: "driver \<Rightarrow> world \<Rightarrow> vulkan \<Rightarrow> bool \<times> world \<times> vulkan" where
  "vulkan_commandpool_create drv w v =
     (if \<not> succeeds drv vkCreateCommandPool then (False, w, v)
      else let (h, w1) = create CommandPool w in (True, w1, v\<lparr>command_pool := h\<rparr>))"

text \<open>A command buffer belongs to its pool and is released with it.\<close>

definition vulkan_commandbuffer_allocate :: "driver \<Rightarrow> world \<Rightarrow> vulkan \<Rightarrow> bool \<times> world \<times> vulkan" where
  "vulkan_commandbuffer_allocate drv w v =
     (if \<not> succeeds drv vkAllocateCommandBuffers then (False, w, v)
      else
        let h = next_handle w;
            w1 = log_call (AllocateCommandBuffer (command_pool v) h)
                   (w\<lparr>next_handle := Suc (next_handle w)\<rparr>)
        in (True, w1, v\<lparr>command_buffer := h\<rparr>))"

definition vulkan_synchronizationobjects_create ::
  "driver \<Rightarrow> world \<Rightarrow> vulkan \<Rightarrow> bool \<times> world \<times> vulkan" where
  "vulkan_synchronizationobjects_create drv w v =
     (if \<not> succeeds drv (vkCreateSemaphore 0) then (False, w, v)
      else
        let (h1, w1) = create Semaphore w;
            v1 = v\<lparr>swapchain_image_available := h1\<rparr>
        in if \<not> succeeds drv (vkCreateSemaphore 1) then (False, w1, v1)
           else
             let (h2, w2) = create Semaphore w1;
                 v2 = v1\<lparr>render_finished := h2\<rparr>
             in if \<not> succeeds drv vkCreateFence then (False, w2, v2)
                else
                  let (h3, w3) = create Fence w2
                  in (True, w3, v2\<lparr>frame_in_flight := h3\<rparr>))"

section \<open>Start-up and shutdown\<close>

definition vulkan_init :: "driver \<Rightarrow> world \<Rightarrow> vulkan \<Rightarrow> fault + bool \<times> world \<times> vulkan" where
  "vulkan_init drv w v =
     (case vulkan_instance_create drv w v of (ok1, w1, v1) \<Rightarrow>
      if \<not> ok1 then Inr (False, w1, v1) else
      case vulkan_surface_create drv w1 v1 of (ok2, w2, v2) \<Rightarrow>
      if \<not> ok2 then Inr (False, w2, v2) else
      case vulkan_physicaldevice_find drv w2 v2 of (ok3, w3, v3) \<Rightarrow>
      if \<not> ok3 then Inr (False, w3, v3) else
      case vulkan_queuefamily_find drv w3 v3 of (ok4, w4, v4) \<Rightarrow>
      if \<not> ok4 then Inr (False, w4, v4) else
      case vulkan_device_create drv w4 v4 of (ok5, w5, v5) \<Rightarrow>
      if \<not> ok5 then Inr (False, w5, v5) else
      case vulkan_swapchain_create drv w5 v5 of (ok6, w6, v6) \<Rightarrow>
      if \<not> ok6 then Inr (False, w6, v6) else
      case vulkan_imageviews_create drv w6 v6 of (ok7, w7, v7) \<Rightarrow>
      if \<not> ok7 then Inr (False, w7, v7) else
      case vulkan_renderpass_create drv w7 v7 of (ok8, w8, v8) \<Rightarrow>
      if \<not> ok8 then Inr (False, w8, v8) else
      case vulkan_graphicspipeline_create drv w8 v8 of
        Inl f \<Rightarrow> Inl f
      | Inr (ok9, w9, v9) \<Rightarrow>
      if \<not> ok9 then Inr (False, w9, v9) else
      case vulkan_framebuffers_create drv w9 v9 of (ok10, w10, v10) \<Rightarrow>
      if \<not> ok10 then Inr (False, w10, v10) else
      case vulkan_commandpool_create drv w10 v10 of (ok11, w11, v11) \<Rightarrow>
      if \<not> ok11 then Inr (False, w11, v11) else
      case vulkan_commandbuffer_allocate drv w11 v11 of (ok12, w12, v12) \<Rightarrow>
      if \<not> ok12 then Inr (False, w12, v12) else
      case vulkan_synchronizationobjects_create drv w12 v12 of (ok13, w13, v13) \<Rightarrow>
      if \<not> ok13 then Inr (False, w13, v13) else Inr (True, w13, v13))"

text \<open>
  \<open>struct application_config\<close> (its \<open>width\<close> and \<open>height\<close> are \<open>cfg_width\<close> and
  \<open>cfg_height\<close> here) and \<open>struct application\<close> (its fields \<open>window\<close> and \<open>vulkan\<close>
  are \<open>app_window\<close> and \<open>app_vulkan\<close>).
\<close>

record application_config =
  title :: string
  cfg_width :: int
  cfg_height :: int
  debug :: bool

record application =
  app_window :: handle
  app_vulkan :: vulkan

definition application_create ::
  "application_config \<Rightarrow> driver \<Rightarrow> world \<Rightarrow> application \<Rightarrow> fault + bool \<times> world \<times> application" where
  "application_create config drv w app =
     (if \<not> succeeds drv glfwInit then Inr (False, w, app)
      else
        let w1 = log_call GlfwInit w in
        if \<not> succeeds drv glfwCreateWindow then Inr (False, w1, app)
        else
          let (window_handle, w2) = create Window w1;
              app1 = app\<lparr>app_window := window_handle\<rparr>;
              app2 = app1\<lparr>app_vulkan := (app_vulkan app1)\<lparr>window := window_handle\<rparr>\<rparr>;
              app3 = app2\<lparr>app_vulkan := (app_vulkan app2)\<lparr>application_name := title config\<rparr>\<rparr>;
              app4 = app3\<lparr>app_vulkan :=
                       (app_vulkan app3)\<lparr>enable_validation_layers := debug config\<rparr>\<rparr>
          in case vulkan_init drv w2 (app_vulkan app4) of
               Inl f \<Rightarrow> Inl f
             | Inr (ok, w3, v) \<Rightarrow> Inr (ok, w3, app4\<lparr>app_vulkan := v\<rparr>))"

text \<open>
  \<open>application_destroy\<close>: the calls in the order of lines 1294--1312. The two loops
  run over the indices below the stored counts.
\<close>

definition application_destroy :: "world \<Rightarrow> application \<Rightarrow> world" where
  "application_destroy w app =
     (let v = app_vulkan app;
          w1 = destroy Semaphore (swapchain_image_available v) w;
          w2 = destroy Semaphore (render_finished v) w1;
          w3 = destroy Fence (frame_in_flight v) w2;
          w4 = destroy CommandPool (command_pool v) w3;
          w5 = fold (\<lambda>i. destroy Framebuffer (swapchain_framebuffers v ! i))
                 [0..<swapchain_framebuffers_count (app_vulkan app)] w4;
          w6 = destroy Pipeline (graphics_pipeline v) w5;
          w7 = destroy PipelineLayout (pipeline_layout v) w6;
          w8 = destroy RenderPass (render_pass v) w7;
          w9 = fold (\<lambda>i. destroy ImageView (swapchain_imageviews v ! i))
                 [0..<swapchain_imageviews_count v] w8;
          w10 = destroy Swapchain (swapchain v) w9;
          w11 = destroy Device (device v) w10;
          w12 = destroy Surface (surface v) w11;
          w13 = destroy Instance (vk_instance v) w12;
          w14 = destroy Window (app_window app) w13
      in log_call GlfwTerminate w14)"

section \<open>The frame loop\<close>

datatype VkResult = VK_SUCCESS | VK_TIMEOUT | VK_ERROR_DEVICE_LOST

text \<open>
  What the driver answers during one frame: the result of the fence wait, whether the
  other calls succeed, and the index of the acquired image.
\<close>

record frame_env =
  wait_result :: VkResult
  acquire_ok :: bool
  image_index :: u32
  reset_commandbuffer_ok :: bool
  begin_commandbuffer_ok :: bool
  end_commandbuffer_ok :: bool
  submit_ok :: bool
  present_ok :: bool

text \<open>
  \<open>swapchain_framebuffers[framebuffer_index]\<close>; an index the array does not have
  reads as the null handle here.
\<close>

definition framebuffer_at :: "vulkan \<Rightarrow> u32 \<Rightarrow> handle" where
  "framebuffer_at v framebuffer_index =
     (if unat framebuffer_index < length (swapchain_framebuffers v)
      then swapchain_framebuffers v ! unat framebuffer_index else 0)"

definition vulkan_commandbuffer_record ::
  "frame_env \<Rightarrow> world \<Rightarrow> vulkan \<Rightarrow> handle \<Rightarrow> u32 \<Rightarrow> bool \<times> world" where
  "vulkan_commandbuffer_record fe w v command_buffer_arg framebuffer_index =
     (let w1 = log_call (VkBeginCommandBuffer command_buffer_arg) w in
      if \<not> begin_commandbuffer_ok fe then (False, w1)
      else
        let w2 = log_call (VkCmdBeginRenderPass command_buffer_arg (render_pass v)
                             (framebuffer_at v framebuffer_index)) w1;
            w3 = log_call (VkCmdBindPipeline command_buffer_arg (graphics_pipeline v)) w2;
            w4 = log_call (VkCmdSetViewport command_buffer_arg (swapchain_extent v)) w3;
            w5 = log_call (VkCmdSetScissor command_buffer_arg (swapchain_extent v)) w4;
            w6 = log_call (VkCmdDraw command_buffer_arg 3 1 0 0) w5;
            w7 = log_call (VkCmdEndRenderPass command_buffer_arg) w6;
            w8 = log_call (VkEndCommandBuffer command_buffer_arg) w7
        in if \<not> end_commandbuffer_ok fe then (False, w8) else (True, w8))"

text \<open>
  \<open>vulkan_frame_draw\<close>. The timeout parameter of \<open>vkWaitForFences\<close> and of
  \<open>vkAcquireNextImageKHR\<close> is a \<open>uint64_t\<close> number of nanoseconds; the source passes
  \<open>UINT32_MAX\<close>, which converts to the same number. The result of \<open>vkWaitForFences\<close>
  is not looked at.
\<close>

definition vulkan_frame_draw :: "frame_env \<Rightarrow> world \<Rightarrow> vulkan \<Rightarrow> bool \<times> world" where
  "vulkan_frame_draw fe w v =
     (let w1 = log_call (VkWaitForFences (frame_in_flight v) (ucast UINT32_MAX)) w;
          w2 = log_call (VkResetFences (frame_in_flight v)) w1;
          w3 = log_call (VkAcquireNextImageKHR (swapchain v) (ucast UINT32_MAX)
                           (swapchain_image_available v)) w2
      in if \<not> acquire_ok fe then (False, w3)
         else
           let swapchain_image_index = image_index fe;
               w4 = log_call (VkResetCommandBuffer (command_buffer v)) w3
           in if \<not> reset_commandbuffer_ok fe then (False, w4)
              else
                case vulkan_commandbuffer_record fe w4 v (command_buffer v) swapchain_image_index of
                  (ok, w5) \<Rightarrow>
                if \<not> ok then (False, w5)
                else
                  let w6 = log_call (VkQueueSubmit (graphics_queue v) (swapchain_image_available v)
                                       (command_buffer v) (render_finished v) (frame_in_flight v)) w5
                  in if \<not> submit_ok fe then (False, w6)
                     else
                       let w7 = log_call (VkQueuePresentKHR (present_queue v) (render_finished v)
                                            (swapchain v) swapchain_image_index) w6
                       in if \<not> present_ok fe then (False, w7) else (True, w7))"

text \<open>
  \<open>application_mainloop\<close> runs one frame per iteration until the window asks to be
  closed. The list holds the driver's answers for the iterations that run; a failed
  frame is reported and the loop goes on.
\<close>

fun application_mainloop :: "frame_env list \<Rightarrow> world \<Rightarrow> application \<Rightarrow> bool \<times> world" where
  "application_mainloop [] w app = (True, w)"
| "application_mainloop (fe # rest) w app =
     (case vulkan_frame_draw fe w (app_vulkan app) of
        (ok, w1) \<Rightarrow> application_mainloop rest w1 app)"

text \<open>
  \<open>main\<close>: the application structure starts zero-initialised, the configuration is
  fixed, and \<open>application_destroy\<close> runs on every path.
\<close>

definition vulkan_zero :: vulkan where
  "vulkan_zero =
     \<lparr>application_name = [], enable_validation_layers = False, window = 0, vk_instance = 0,
      surface = 0, physicaldevice = 0, device = 0, swapchain = 0, render_pass = 0,
      pipeline_layout = 0, graphics_pipeline = 0, command_pool = 0, command_buffer = 0,
      swapchain_image_format = 0, swapchain_extent = \<lparr>width = 0, height = 0\<rparr>,
      swapchain_images = replicate (unat MAX_SWAPCHAIN_IMAGES) 0, swapchain_images_count = 0,
      swapchain_imageviews = replicate (unat MAX_SWAPCHAIN_IMAGES) 0,
      swapchain_imageviews_count = 0,
      swapchain_framebuffers = replicate (unat MAX_SWAPCHAIN_IMAGES) 0,
      swapchain_framebuffers_count = 0,
      graphics_queuefamily_index = 0, graphics_queue = 0,
      present_queuefamily_index = 0, present_queue = 0,
      swapchain_image_available = 0, render_finished = 0, frame_in_flight = 0\<rparr>"

definition application_zero :: application where
  "application_zero = \<lparr>app_window = 0, app_vulkan = vulkan_zero\<rparr>"

definition main_config :: application_config where
  "main_config = \<lparr>title = ''Vulkan test'', cfg_width = 1280, cfg_height = 720, debug = True\<rparr>"

definition EXIT_SUCCESS :: int where
  "EXIT_SUCCESS = 0"

definition EXIT_FAILURE :: int where
  "EXIT_FAILURE = 1"

definition main :: "driver \<Rightarrow> frame_env list \<Rightarrow> world \<Rightarrow> fault + int \<times> world" where
  "main drv frames w =
     (case application_create main_config drv w application_zero of
        Inl f \<Rightarrow> Inl f
      | Inr (created, w1, app) \<Rightarrow>
          if \<not> created then Inr (EXIT_FAILURE, application_destroy w1 app)
          else
            case application_mainloop frames w1 app of
              (looped, w2) \<Rightarrow>
                if \<not> looped then Inr (EXIT_FAILURE, application_destroy w2 app)
                else Inr (EXIT_SUCCESS, application_destroy w2 app))"

section \<open>Concrete environments\<close>

definition world0 :: world where
  "world0 = \<lparr>heap = [], next_handle = 1, trace = []\<rparr>"

definition readable_file :: "u8 list \<Rightarrow> file_env" where
  "readable_file bytes =
     \<lparr>fopen_ok = True, file_bytes = bytes, fseek_ok = True, ftell_ok = True,
      malloc_ok = True, fread_ok = True\<rparr>"

definition capabilities0 :: VkSurfaceCapabilitiesKHR where
  "capabilities0 =
     \<lparr>minImageCount = 2, maxImageCount = 0,
      currentExtent = \<lparr>width = UINT32_MAX, height = UINT32_MAX\<rparr>,
      minImageExtent = \<lparr>width = 1, height = 1\<rparr>,
      maxImageExtent = \<lparr>width = 4096, height = 4096\<rparr>,
      currentTransform = 1\<rparr>"

text \<open>
  A driver on which every call succeeds: one physical device, one queue family that
  draws and presents, the required surface format, a swapchain of three images, and two
  shader files of four bytes.
\<close>

definition driver0 :: driver where
  "driver0 =
     \<lparr>succeeds = (\<lambda>c. True),
      drv_layers = [''VK_LAYER_KHRONOS_validation''],
      drv_physical_devices = [7],
      drv_queue_families = [1],
      drv_surface_support = (\<lambda>i. VK_TRUE),
      drv_extensions = [''VK_KHR_swapchain''],
      drv_surface_formats = [(50, 0)],
      drv_present_modes = [2],
      drv_surface_capabilities = capabilities0,
      drv_framebuffer_size = (1280, 720),
      drv_swapchain_images = [101, 102, 103],
      drv_device_queue = (\<lambda>i. 200 + unat i),
      drv_shader_file = (\<lambda>name. readable_file [3, 2, 35, 7])\<rparr>"

definition driver_pipeline_fails :: driver where
  "driver_pipeline_fails = driver0\<lparr>succeeds := (\<lambda>c. c \<noteq> vkCreateGraphicsPipelines)\<rparr>"

text \<open>
  Two queue families: the first presents and does not draw, the second draws and does
  not present.
\<close>

definition driver_split_families :: driver where
  "driver_split_families =
     driver0\<lparr>drv_queue_families := [2, 1], drv_surface_support := (\<lambda>i. if i = 0 then 1 else 0)\<rparr>"

text \<open>A frame whose fence is not signalled within the timeout; every later call succeeds.\<close>

definition frame_timeout :: frame_env where
  "frame_timeout =
     \<lparr>wait_result = VK_TIMEOUT, acquire_ok = True, image_index = 0,
      reset_commandbuffer_ok = True, begin_commandbuffer_ok = True,
      end_commandbuffer_ok = True, submit_ok = True, present_ok = True\<rparr>"

text \<open>
  The world and the application structure once start-up on \<open>driver0\<close> has succeeded,
  from \<open>world0\<close> and the zero-initialised structure.
\<close>

definition world1 :: world where
  "world1 =
     \<lparr>heap = [None, None], next_handle = 22,
      trace =
        [GlfwInit, Create Window 1, Create Instance 2, Create Surface 3,
         VkCreateDevice_with
           \<lparr>pQueueCreateInfos =
              [\<lparr>queueFamilyIndex = 0, queueCount = 1\<rparr>, \<lparr>queueFamilyIndex = 0, queueCount = 1\<rparr>],
            queueCreateInfoCount = 1,
            ppEnabledExtensionNames = [''VK_KHR_swapchain''],
            enabledExtensionCount = 1\<rparr>,
         Create Device 4,
         VkCreateSwapchainKHR_with
           \<lparr>sci_surface = 3, sci_minImageCount = 3, imageFormat = 50, imageColorSpace = 0,
            imageExtent = \<lparr>width = 1280, height = 4096\<rparr>, imageArrayLayers = 1,
            imageSharingMode = VK_SHARING_MODE_EXCLUSIVE, queueFamilyIndexCount = 0,
            pQueueFamilyIndices = [], preTransform = 1, clipped = 1, oldSwapchain = 0\<rparr>,
         Create Swapchain 5, Create ImageView 6, Create ImageView 7, Create ImageView 8,
         Create RenderPass 9, Malloc 4 1, Malloc 4 2, Create ShaderModule 10,
         Create ShaderModule 11, Create PipelineLayout 12, Create Pipeline 13,
         Destroy ShaderModule 11, Destroy ShaderModule 10, Free 2, Free 1,
         Create Framebuffer 14, Create Framebuffer 15, Create Framebuffer 16,
         Create CommandPool 17, AllocateCommandBuffer 17 18, Create Semaphore 19,
         Create Semaphore 20, Create Fence 21]\<rparr>"

definition application1 :: application where
  "application1 =
     \<lparr>app_window = 1,
      app_vulkan =
        \<lparr>application_name = ''Vulkan test'', enable_validation_layers = True, window = 1,
         vk_instance = 2, surface = 3, physicaldevice = 7, device = 4, swapchain = 5,
         render_pass = 9, pipeline_layout = 12, graphics_pipeline = 13, command_pool = 17,
         command_buffer = 18, swapchain_image_format = 50,
         swapchain_extent = \<lparr>width = 1280, height = 4096\<rparr>,
         swapchain_images = [101, 102, 103, 0, 0, 0, 0, 0, 0, 0], swapchain_images_count = 3,
         swapchain_imageviews = [6, 7, 8, 0, 0, 0, 0, 0, 0, 0], swapchain_imageviews_count = 3,
         swapchain_framebuffers = [14, 15, 16, 0, 0, 0, 0, 0, 0, 0],
         swapchain_framebuffers_count = 3,
         graphics_queuefamily_index = 0, graphics_queue = 200,
         present_queuefamily_index = 0, present_queue = 200,
         swapchain_image_available = 19, render_finished = 20, frame_in_flight = 21\<rparr>\<rparr>"














section \<open>Vocabulary of the properties\<close>

text \<open>The calls logged between two states of the world.\<close>

definition new_calls :: "world \<Rightarrow> world \<Rightarrow> call list" where
  "new_calls w w' = drop (length (trace w)) (trace w')"

text \<open>
  Family \<open>i\<close> of the driver's table advertises drawing, or presentation to the surface;
  \<open>i\<close> is the first index with a property.
\<close>

definition draws :: "driver \<Rightarrow> nat \<Rightarrow> bool" where
  "draws drv i =
     (i < length (drv_queue_families drv) \<and>
      drv_queue_families drv ! i AND VK_QUEUE_GRAPHICS_BIT \<noteq> 0)"

definition presents :: "driver \<Rightarrow> nat \<Rightarrow> bool" where
  "presents drv i = (i < length (drv_queue_families drv) \<and> drv_surface_support drv i = VK_TRUE)"

definition first_family :: "(nat \<Rightarrow> bool) \<Rightarrow> nat \<Rightarrow> bool" where
  "first_family P i = (P i \<and> list_all (\<lambda>j. \<not> P j) [0..<i])"










text \<open>
  The calls of a frame in which every call succeeds, in the order of \<open>vulkan_frame_draw\<close>
  and \<open>vulkan_commandbuffer_record\<close>, and the number of them a frame makes before it
  returns: a failed call is the last one.
\<close>

definition frame_calls :: "vulkan \<Rightarrow> u32 \<Rightarrow> call list" where
  "frame_calls v swapchain_image_index =
     [VkWaitForFences (frame_in_flight v) 4294967295,
      VkResetFences (frame_in_flight v),
      VkAcquireNextImageKHR (swapchain v) 4294967295 (swapchain_image_available v),
      VkResetCommandBuffer (command_buffer v),
      VkBeginCommandBuffer (command_buffer v),
      VkCmdBeginRenderPass (command_buffer v) (render_pass v)
        (framebuffer_at v swapchain_image_index),
      VkCmdBindPipeline (command_buffer v) (graphics_pipeline v),
      VkCmdSetViewport (command_buffer v) (swapchain_extent v),
      VkCmdSetScissor (command_buffer v) (swapchain_extent v),
      VkCmdDraw (command_buffer v) 3 1 0 0,
      VkCmdEndRenderPass (command_buffer v),
      VkEndCommandBuffer (command_buffer v),
      VkQueueSubmit (graphics_queue v) (swapchain_image_available v) (command_buffer v)
        (render_finished v) (frame_in_flight v),
      VkQueuePresentKHR (present_queue v) (render_finished v) (swapchain v)
        swapchain_image_index]"

definition frame_progress :: "frame_env \<Rightarrow> nat" where
  "frame_progress fe =
     (if \<not> acquire_ok fe then 3
      else if \<not> reset_commandbuffer_ok fe then 4
      else if \<not> begin_commandbuffer_ok fe then 5
      else if \<not> end_commandbuffer_ok fe then 12
      else if \<not> submit_ok fe then 13
      else 14)"

text \<open>
  In a log, every image acquisition comes directly after the wait for the fence and the
  reset of the fence.
\<close>

fun is_acquire :: "call \<Rightarrow> bool" where
  "is_acquire (VkAcquireNextImageKHR sc t sem) = True"
| "is_acquire c = False"

definition fence_guards_acquire :: "handle \<Rightarrow> call list \<Rightarrow> bool" where
  "fence_guards_acquire fence cs \<longleftrightarrow>
     list_all
       (\<lambda>i. is_acquire (cs ! i) \<longrightarrow>
          2 \<le> i \<and> cs ! (i - 2) = VkWaitForFences fence 4294967295 \<and>
          cs ! (i - 1) = VkResetFences fence)
       [0..<length cs]"

text \<open>
  In a log, every block allocated is freed exactly once and every shader module created
  is destroyed exactly once.
\<close>

fun released :: "call list \<Rightarrow> call \<Rightarrow> bool" where
  "released cs (Malloc n p) = (count_list cs (Free p) = 1)"
| "released cs (Create ShaderModule h) = (count_list cs (Destroy ShaderModule h) = 1)"
| "released cs c = True"

definition released_once :: "call list \<Rightarrow> bool" where
  "released_once cs \<longleftrightarrow> list_all (released cs) cs"

text \<open>
  For the proofs: the world after calls that return \<open>n\<close> handles, a file that
  \<open>file_read\<close> reads, \<open>n\<close> consecutive handles, and the object of a handle unless
  the handle is null.
\<close>

definition created :: "call list \<Rightarrow> nat \<Rightarrow> world \<Rightarrow> world" where
  "created cs n w = w\<lparr>next_handle := next_handle w + n, trace := trace w @ cs\<rparr>"

definition readable :: "file_env \<Rightarrow> bool" where
  "readable f \<longleftrightarrow>
     fopen_ok f \<and> fseek_ok f \<and> ftell_ok f \<and> malloc_ok f \<and> fread_ok f \<and> file_bytes f \<noteq> []"



section \<open>Properties\<close>

subsection \<open>The vocabulary, with quantifiers\<close>

lemma first_family_iff: "first_family P i \<longleftrightarrow> P i \<and> (\<forall>j<i. \<not> P j)"
  by (auto simp: first_family_def list_all_iff)

lemma fence_guards_acquire_iff:
  "fence_guards_acquire fence cs \<longleftrightarrow>
     (\<forall>i < length cs. is_acquire (cs ! i) \<longrightarrow>
        2 \<le> i \<and> cs ! (i - 2) = VkWaitForFences fence 4294967295 \<and>
        cs ! (i - 1) = VkResetFences fence)"
  by (auto simp: fence_guards_acquire_def list_all_iff)

lemma released_once_iff:
  "released_once cs \<longleftrightarrow>
     (\<forall>n p. Malloc n p \<in> set cs \<longrightarrow> count_list cs (Free p) = 1) \<and>
     (\<forall>h. Create ShaderModule h \<in> set cs \<longrightarrow> count_list cs (Destroy ShaderModule h) = 1)"
proof -
  have "released cs c \<longleftrightarrow>
      (\<forall>n p. c = Malloc n p \<longrightarrow> count_list cs (Free p) = 1) \<and>
      (\<forall>h. c = Create ShaderModule h \<longrightarrow> count_list cs (Destroy ShaderModule h) = 1)" for c
    by (cases "(cs, c)" rule: released.cases) auto
  then show ?thesis
    by (auto simp: released_once_def list_all_iff)
qed

subsection \<open>Swap extent and image count\<close>

text \<open>
  C1. The claim: with the current extent undefined, the extent is the framebuffer size
  clamped per axis into the range of the capabilities, width and height alike. The code
  compares the height with the minimum twice: a framebuffer of 800 by 800 pixels and the
  range from 1 to 4096 on both axes give the width 800 and the height 4096.
\<close>

theorem extent_height_set_to_maximum:
  "swapchain_image_extent capabilities0 (800, 800) = \<lparr>width = 800, height = 4096\<rparr>"
  by (simp add: swapchain_image_extent_def capabilities0_def Let_def)

text \<open>
  In general, with the current extent undefined: the width is the framebuffer width
  clamped into the range of the capabilities, and the height is the minimum or the
  maximum, whatever the framebuffer height.
\<close>

lemma extent_width_clamped:
  assumes "width (currentExtent caps) = UINT32_MAX"
    and "width (minImageExtent caps) \<le> width (maxImageExtent caps)"
  shows "width (swapchain_image_extent caps (w, h)) =
           max (width (minImageExtent caps)) (min (width (maxImageExtent caps)) (word_of_int w))"
  using assms by (auto simp: swapchain_image_extent_def Let_def min_def max_def)

lemma extent_height_minimum_or_maximum:
  assumes "width (currentExtent caps) = UINT32_MAX"
  shows "height (swapchain_image_extent caps (w, h)) =
           (if word_of_int h \<le> height (minImageExtent caps)
            then height (minImageExtent caps) else height (maxImageExtent caps))"
  using assms by (auto simp: swapchain_image_extent_def Let_def)

text \<open>
  C6. The image count: a minimum above ten fails; otherwise the count is the least of
  the minimum plus one, the maximum when it is not zero, and ten. The four examples of
  the specification follow.
\<close>

theorem swapchain_image_count_spec:
  "(case swapchain_image_count caps of
      Inl e \<Rightarrow> e = Min_image_count_too_high \<and> 10 < unat (minImageCount caps)
    | Inr c \<Rightarrow>
        unat (minImageCount caps) \<le> 10 \<and>
        enat (unat c) =
          min (enat (unat (minImageCount caps) + 1))
            (min (if 0 < unat (maxImageCount caps) then enat (unat (maxImageCount caps)) else \<infinity>)
               10))
   \<and> swapchain_image_count (caps\<lparr>minImageCount := 1, maxImageCount := 0\<rparr>) = Inr 2
   \<and> swapchain_image_count (caps\<lparr>minImageCount := 2, maxImageCount := 2\<rparr>) = Inr 2
   \<and> swapchain_image_count (caps\<lparr>minImageCount := 1, maxImageCount := 3\<rparr>) = Inr 2
   \<and> swapchain_image_count (caps\<lparr>minImageCount := 11, maxImageCount := 0\<rparr>)
       = Inl Min_image_count_too_high"
proof -
  have general: "case swapchain_image_count caps of
      Inl e \<Rightarrow> e = Min_image_count_too_high \<and> 10 < unat (minImageCount caps)
    | Inr c \<Rightarrow>
        unat (minImageCount caps) \<le> 10 \<and>
        enat (unat c) =
          min (enat (unat (minImageCount caps) + 1))
            (min (if 0 < unat (maxImageCount caps) then enat (unat (maxImageCount caps)) else \<infinity>)
               10)"
    unfolding swapchain_image_count_def MAX_SWAPCHAIN_IMAGES_def Let_def
    by (auto simp: word_less_nat_alt word_le_nat_alt unat_word_ariths unat_gt_0 min_def
          not_less numeral_eq_enat one_enat_def split: if_splits)
  have examples:
    "swapchain_image_count (caps\<lparr>minImageCount := 1, maxImageCount := 0\<rparr>) = Inr 2"
    "swapchain_image_count (caps\<lparr>minImageCount := 2, maxImageCount := 2\<rparr>) = Inr 2"
    "swapchain_image_count (caps\<lparr>minImageCount := 1, maxImageCount := 3\<rparr>) = Inr 2"
    "swapchain_image_count (caps\<lparr>minImageCount := 11, maxImageCount := 0\<rparr>)
       = Inl Min_image_count_too_high"
    by (simp_all add: swapchain_image_count_def MAX_SWAPCHAIN_IMAGES_def)
  from general examples show ?thesis by blast
qed

subsection \<open>\<open>file_read\<close>\<close>

text \<open>
  C10. When \<open>file_read\<close> returns failure, the two out-parameters keep their values,
  memory is as before and every block allocated during the call has been freed. When it
  returns success, the content pointer is a block allocated during the call (its address
  was never in use before), the block holds the bytes of the file, the size is their
  number, the block has not been freed, and no other block has changed.
\<close>

theorem file_read_contract:
  assumes "file_read f w content content_size = Inr (success, w', content', content_size')"
  shows "(\<not> success \<longrightarrow>
            content' = content \<and> content_size' = content_size \<and> block w' = block w \<and>
            (\<forall>n p. Malloc n p \<in> set (new_calls w w') \<longrightarrow> Free p \<in> set (new_calls w w')))
       \<and> (success \<longrightarrow>
            content' \<noteq> 0 \<and> length (heap w) < content' \<and> block w content' = None \<and>
            Malloc content_size' content' \<in> set (new_calls w w') \<and>
            block w' content' = Some (file_bytes f) \<and>
            content_size' = length (file_bytes f) \<and>
            Free content' \<notin> set (new_calls w w') \<and>
            (\<forall>p. p \<noteq> content' \<longrightarrow> block w' p = block w p))"
  using assms
  by (auto simp: new_calls_def file_read_def file_read_cleanup_def Let_def malloc_def free_def
        fread_def log_call_def ftell_def block_def fun_eq_iff nth_append nth_list_update
      split: if_splits prod.splits)

theorem file_read_contract_witness:
  "file_read (readable_file [3, 2, 35, 7]) world0 0 0 =
     Inr (True, \<lparr>heap = [Some [3, 2, 35, 7]], next_handle = 1, trace = [Malloc 4 1]\<rparr>, 1, 4)
   \<and> block \<lparr>heap = [Some [3, 2, 35, 7]], next_handle = 1, trace = [Malloc 4 1]\<rparr> 1
       = Some (file_bytes (readable_file [3, 2, 35, 7]))
   \<and> file_read ((readable_file [3, 2])\<lparr>fread_ok := False\<rparr>) world0 5 6 =
       Inr (False, \<lparr>heap = [None], next_handle = 1, trace = [Malloc 2 1, Free 1]\<rparr>, 5, 6)
   \<and> block \<lparr>heap = [None], next_handle = 1, trace = [Malloc 2 1, Free 1]\<rparr> = block world0"
proof -
  have ok: "file_read (readable_file [3, 2, 35, 7]) world0 0 0 =
     Inr (True, \<lparr>heap = [Some [3, 2, 35, 7]], next_handle = 1, trace = [Malloc 4 1]\<rparr>, 1, 4)"
    by (simp add: file_read_def file_read_cleanup_def readable_file_def world0_def ftell_def
        malloc_def fread_def log_call_def Let_def)
  have failed: "file_read ((readable_file [3, 2])\<lparr>fread_ok := False\<rparr>) world0 5 6 =
       Inr (False, \<lparr>heap = [None], next_handle = 1, trace = [Malloc 2 1, Free 1]\<rparr>, 5, 6)"
    by (simp add: file_read_def file_read_cleanup_def readable_file_def world0_def ftell_def
        malloc_def fread_def free_def log_call_def Let_def)
  from file_read_contract [OF ok] file_read_contract [OF failed] ok failed
  show ?thesis by simp
qed

subsection \<open>Queue families and bounded enumeration\<close>

text \<open>
  C7, as the code has it. With equal indices the device descriptor lists one queue
  family, and the swapchain descriptor shares exclusively and lists none: its index
  count is zero and its index list is null. With different indices the device descriptor
  lists the two families, and the swapchain descriptor shares concurrently and lists
  both.
\<close>

theorem queue_family_collapsing:
  "(graphics_queuefamily_index v = present_queuefamily_index v \<longrightarrow>
      queueCreateInfoCount (device_create_info v) = 1 \<and>
      map queueFamilyIndex (take (queueCreateInfoCount (device_create_info v))
          (pQueueCreateInfos (device_create_info v))) = [graphics_queuefamily_index v] \<and>
      imageSharingMode (swapchain_create_info v caps sf ext n) = VK_SHARING_MODE_EXCLUSIVE \<and>
      queueFamilyIndexCount (swapchain_create_info v caps sf ext n) = 0 \<and>
      pQueueFamilyIndices (swapchain_create_info v caps sf ext n) = [])
 \<and> (graphics_queuefamily_index v \<noteq> present_queuefamily_index v \<longrightarrow>
      queueCreateInfoCount (device_create_info v) = 2 \<and>
      map queueFamilyIndex (take (queueCreateInfoCount (device_create_info v))
          (pQueueCreateInfos (device_create_info v))) =
        [graphics_queuefamily_index v, present_queuefamily_index v] \<and>
      imageSharingMode (swapchain_create_info v caps sf ext n) = VK_SHARING_MODE_CONCURRENT \<and>
      queueFamilyIndexCount (swapchain_create_info v caps sf ext n) = 2 \<and>
      pQueueFamilyIndices (swapchain_create_info v caps sf ext n) =
        [graphics_queuefamily_index v, present_queuefamily_index v])"
  by (simp add: device_create_info_def device_queue_create_infos_def swapchain_create_info_def Let_def)

theorem queue_family_collapsing_witness:
  "queueCreateInfoCount (device_create_info vulkan_zero) = 1 \<and>
   queueFamilyIndexCount
     (swapchain_create_info vulkan_zero capabilities0 (50, 0) \<lparr>width = 1280, height = 720\<rparr> 3) = 0 \<and>
   queueCreateInfoCount (device_create_info (vulkan_zero\<lparr>present_queuefamily_index := 1\<rparr>)) = 2 \<and>
   pQueueFamilyIndices
     (swapchain_create_info (vulkan_zero\<lparr>present_queuefamily_index := 1\<rparr>) capabilities0 (50, 0)
        \<lparr>width = 1280, height = 720\<rparr> 3) = [0, 1]"
  using queue_family_collapsing [of vulkan_zero capabilities0 "(50, 0)" "\<lparr>width = 1280, height = 720\<rparr>" 3]
    queue_family_collapsing [of "vulkan_zero\<lparr>present_queuefamily_index := 1\<rparr>" capabilities0 "(50, 0)" "\<lparr>width = 1280, height = 720\<rparr>" 3]
  by (simp add: vulkan_zero_def)

text \<open>
  C7 as claimed asks for exactly one queue family in the swapchain descriptor when the
  indices are equal; the descriptor built from the zero-initialised context, whose
  indices are both zero, lists none.
\<close>

theorem swapchain_descriptor_lists_no_family:
  "graphics_queuefamily_index vulkan_zero = present_queuefamily_index vulkan_zero \<and>
   queueFamilyIndexCount
     (swapchain_create_info vulkan_zero capabilities0 (50, 0) \<lparr>width = 1280, height = 720\<rparr> 3) = 0 \<and>
   queueFamilyIndexCount
     (swapchain_create_info vulkan_zero capabilities0 (50, 0) \<lparr>width = 1280, height = 720\<rparr> 3) \<noteq> 1"
  by (simp add: swapchain_create_info_def vulkan_zero_def Let_def)

text \<open>
  C8, as the code has it. Layers, queue families and extensions: a list of at most 256
  entries is returned whole. Physical devices, surface formats and present modes: a list
  of 1 to 256 entries is returned whole, and an empty list makes the operation fail.
  A list of more than 256 entries makes the enumeration and the operation around it
  fail, with the world and the context unchanged.
\<close>

theorem bounded_enumeration:
  "(length (drv_layers drv) \<le> 256 \<longrightarrow> enumerate_layers drv = Inr (drv_layers drv))
 \<and> (length (drv_queue_families drv) \<le> 256 \<longrightarrow>
      enumerate_queuefamilies drv = Inr (drv_queue_families drv))
 \<and> (length (drv_extensions drv) \<le> 256 \<longrightarrow> enumerate_extensions drv = Inr (drv_extensions drv))
 \<and> (1 \<le> length (drv_physical_devices drv) \<and> length (drv_physical_devices drv) \<le> 256 \<longrightarrow>
      enumerate_physicaldevices drv = Inr (drv_physical_devices drv))
 \<and> (1 \<le> length (drv_surface_formats drv) \<and> length (drv_surface_formats drv) \<le> 256 \<longrightarrow>
      enumerate_surface_formats drv = Inr (drv_surface_formats drv))
 \<and> (1 \<le> length (drv_present_modes drv) \<and> length (drv_present_modes drv) \<le> 256 \<longrightarrow>
      enumerate_present_modes drv = Inr (drv_present_modes drv))
 \<and> (drv_physical_devices drv = [] \<longrightarrow> vulkan_physicaldevice_find drv w v = (False, w, v))
 \<and> (drv_surface_formats drv = [] \<longrightarrow> vulkan_swapchain_create drv w v = (False, w, v))
 \<and> (drv_present_modes drv = [] \<longrightarrow> vulkan_swapchain_create drv w v = (False, w, v))
 \<and> (256 < length (drv_layers drv) \<longrightarrow>
      enumerate_layers drv = Inl Count_out_of_bounds \<and>
      \<not> vulkan_validationlayers_check drv layers \<and>
      (enable_validation_layers v \<longrightarrow> vulkan_instance_create drv w v = (False, w, v)))
 \<and> (256 < length (drv_physical_devices drv) \<longrightarrow>
      enumerate_physicaldevices drv = Inl Count_out_of_bounds \<and>
      vulkan_physicaldevice_find drv w v = (False, w, v))
 \<and> (256 < length (drv_queue_families drv) \<longrightarrow>
      enumerate_queuefamilies drv = Inl Count_out_of_bounds \<and>
      vulkan_queuefamily_find drv w v = (False, w, v))
 \<and> (256 < length (drv_extensions drv) \<longrightarrow>
      enumerate_extensions drv = Inl Count_out_of_bounds \<and>
      vulkan_device_create drv w v = (False, w, v))
 \<and> (256 < length (drv_surface_formats drv) \<longrightarrow>
      enumerate_surface_formats drv = Inl Count_out_of_bounds \<and>
      vulkan_swapchain_create drv w v = (False, w, v))
 \<and> (256 < length (drv_present_modes drv) \<longrightarrow>
      enumerate_present_modes drv = Inl Count_out_of_bounds \<and>
      vulkan_swapchain_create drv w v = (False, w, v))"
  by (auto simp: enumerate_layers_def enumerate_queuefamilies_def enumerate_extensions_def
      enumerate_physicaldevices_def enumerate_surface_formats_def enumerate_present_modes_def
      vulkan_physicaldevice_find_def vulkan_swapchain_create_def vulkan_validationlayers_check_def
      vulkan_instance_create_def vulkan_queuefamily_find_def vulkan_device_create_def
      MAX_TMP_BUFFER_def Let_def split: sum.splits)

theorem bounded_enumeration_witness:
  "enumerate_layers driver0 = Inr [''VK_LAYER_KHRONOS_validation'']
   \<and> enumerate_physicaldevices driver0 = Inr [7]
   \<and> enumerate_extensions (driver0\<lparr>drv_extensions := replicate 257 ''x''\<rparr>) = Inl Count_out_of_bounds
   \<and> vulkan_device_create (driver0\<lparr>drv_extensions := replicate 257 ''x''\<rparr>) world0 vulkan_zero
       = (False, world0, vulkan_zero)"
  using bounded_enumeration [where drv = driver0 and w = world0 and v = vulkan_zero]
    bounded_enumeration [where drv = "driver0\<lparr>drv_extensions := replicate 257 ''x''\<rparr>"
      and w = world0 and v = vulkan_zero]
  by (simp add: driver0_def)

text \<open>
  C8 as claimed lets every list of at most 256 entries succeed; the empty list of
  physical devices does not.
\<close>

theorem no_physical_device_fails:
  "length (drv_physical_devices (driver0\<lparr>drv_physical_devices := []\<rparr>)) \<le> 256 \<and>
   enumerate_physicaldevices (driver0\<lparr>drv_physical_devices := []\<rparr>) = Inl None_found \<and>
   vulkan_physicaldevice_find (driver0\<lparr>drv_physical_devices := []\<rparr>) world0 vulkan_zero
     = (False, world0, vulkan_zero)"
  by (simp add: enumerate_physicaldevices_def vulkan_physicaldevice_find_def driver0_def)

text \<open>Facts about \<open>find\<close> on a range of indices, and about an index as a word.\<close>

lemma find_upt_Some:
  "find P [0..<n] = Some i \<longleftrightarrow> i < n \<and> P i \<and> (\<forall>j<i. \<not> P j)"
  by (auto simp: find_Some_iff)

lemma find_upt_None: "find P [0..<n] = None \<longleftrightarrow> (\<forall>i<n. \<not> P i)"
  by (auto simp: find_None_iff)

lemma unat_index: "i < 256 \<Longrightarrow> unat (word_of_nat i :: u32) = i"
  by (simp add: unat_of_nat)

text \<open>
  C9, as the code has it. On a table of at most 256 families the operation succeeds
  exactly when some family draws and some family presents; the graphics index is then
  the first family that draws and the present index the first that presents, each found
  by its own scan.
\<close>

theorem queuefamily_find_first:
  assumes "length (drv_queue_families drv) \<le> 256"
    and "vulkan_queuefamily_find drv w v = (ok, w', v')"
  shows "w' = w
     \<and> (ok \<longleftrightarrow> (\<exists>i. draws drv i) \<and> (\<exists>i. presents drv i))
     \<and> ((\<exists>i. draws drv i) \<longrightarrow> first_family (draws drv) (unat (graphics_queuefamily_index v')))
     \<and> ((\<exists>i. presents drv i) \<longrightarrow> first_family (presents drv) (unat (present_queuefamily_index v')))"
proof -
  let ?n = "length (drv_queue_families drv)"
  let ?G = "\<lambda>i. drv_queue_families drv ! i AND VK_QUEUE_GRAPHICS_BIT \<noteq> 0"
  let ?P = "\<lambda>i. drv_surface_support drv i = VK_TRUE"
  have enum: "enumerate_queuefamilies drv = Inr (drv_queue_families drv)"
    using assms(1) by (simp add: enumerate_queuefamilies_def MAX_TMP_BUFFER_def)
  have graphics:
    "(\<exists>i. draws drv i) \<longrightarrow> first_family (draws drv) (unat (graphics_queuefamily_index v'))"
    and found_graphics: "find ?G [0..<?n] \<noteq> None \<longleftrightarrow> (\<exists>i. draws drv i)"
  proof -
    show "find ?G [0..<?n] \<noteq> None \<longleftrightarrow> (\<exists>i. draws drv i)"
      by (auto simp: find_upt_None draws_def)
    show "(\<exists>i. draws drv i) \<longrightarrow> first_family (draws drv) (unat (graphics_queuefamily_index v'))"
    proof
      assume "\<exists>i. draws drv i"
      then obtain g where g: "find ?G [0..<?n] = Some g"
        by (cases "find ?G [0..<?n]") (auto simp: find_upt_None draws_def)
      then have first: "g < ?n \<and> ?G g \<and> (\<forall>j<g. \<not> ?G j)"
        by (rule find_upt_Some [THEN iffD1])
      have "graphics_queuefamily_index v' = word_of_nat g"
        using assms(2) by (auto simp: vulkan_queuefamily_find_def enum g Let_def split: option.splits)
      moreover have "unat (word_of_nat g :: u32) = g"
        using first assms(1) by (simp add: unat_index)
      ultimately show "first_family (draws drv) (unat (graphics_queuefamily_index v'))"
        using first by (auto simp: first_family_iff draws_def)
    qed
  qed
  have "present": 
    "(\<exists>i. presents drv i) \<longrightarrow> first_family (presents drv) (unat (present_queuefamily_index v'))"
    and found_present: "find ?P [0..<?n] \<noteq> None \<longleftrightarrow> (\<exists>i. presents drv i)"
  proof -
    show "find ?P [0..<?n] \<noteq> None \<longleftrightarrow> (\<exists>i. presents drv i)"
      by (auto simp: find_upt_None presents_def)
    show "(\<exists>i. presents drv i) \<longrightarrow> first_family (presents drv) (unat (present_queuefamily_index v'))"
    proof
      assume "\<exists>i. presents drv i"
      then obtain p where p: "find ?P [0..<?n] = Some p"
        by (cases "find ?P [0..<?n]") (auto simp: find_upt_None presents_def)
      then have first: "p < ?n \<and> ?P p \<and> (\<forall>j<p. \<not> ?P j)"
        by (rule find_upt_Some [THEN iffD1])
      have "present_queuefamily_index v' = word_of_nat p"
        using assms(2) by (auto simp: vulkan_queuefamily_find_def enum p Let_def split: option.splits)
      moreover have "unat (word_of_nat p :: u32) = p"
        using first assms(1) by (simp add: unat_index)
      ultimately show "first_family (presents drv) (unat (present_queuefamily_index v'))"
        using first by (auto simp: first_family_iff presents_def)
    qed
  qed
  have "w' = w" and "ok \<longleftrightarrow> find ?G [0..<?n] \<noteq> None \<and> find ?P [0..<?n] \<noteq> None"
    using assms(2) by (auto simp: vulkan_queuefamily_find_def enum Let_def)
  with graphics "present" found_graphics found_present show ?thesis
    by simp
qed

theorem queuefamily_find_first_witness:
  "vulkan_queuefamily_find driver_split_families world0 vulkan_zero =
     (True, world0, vulkan_zero\<lparr>graphics_queuefamily_index := 1, present_queuefamily_index := 0\<rparr>)
   \<and> first_family (draws driver_split_families) 1
   \<and> first_family (presents driver_split_families) 0"
proof -
  have len: "length (drv_queue_families driver_split_families) \<le> 256"
    by (simp add: driver_split_families_def)
  have run: "vulkan_queuefamily_find driver_split_families world0 vulkan_zero =
     (True, world0, vulkan_zero\<lparr>graphics_queuefamily_index := 1, present_queuefamily_index := 0\<rparr>)"
    by (simp add: vulkan_queuefamily_find_def enumerate_queuefamilies_def driver_split_families_def
        driver0_def MAX_TMP_BUFFER_def VK_QUEUE_GRAPHICS_BIT_def VK_TRUE_def Let_def upt_rec)
  from queuefamily_find_first [OF len run] run show ?thesis
    by simp
qed

text \<open>
  C9 as claimed speaks of every table; a table of 257 families whose first family draws
  and presents makes the operation fail.
\<close>

theorem too_many_families_fail:
  "draws (driver0\<lparr>drv_queue_families := replicate 257 1\<rparr>) 0 \<and>
   presents (driver0\<lparr>drv_queue_families := replicate 257 1\<rparr>) 0 \<and>
   vulkan_queuefamily_find (driver0\<lparr>drv_queue_families := replicate 257 1\<rparr>) world0 vulkan_zero
     = (False, world0, vulkan_zero)"
  by (simp add: draws_def presents_def vulkan_queuefamily_find_def enumerate_queuefamilies_def
      driver0_def MAX_TMP_BUFFER_def VK_QUEUE_GRAPHICS_BIT_def)

subsection \<open>The graphics pipeline\<close>

text \<open>
  C2. The claim: both shader modules are destroyed and both file buffers freed on every
  exit. When \<open>vkCreateGraphicsPipelines\<close> fails after everything before it succeeded,
  the function returns without a single destroy or free: both buffers stay live.
\<close>

theorem pipeline_failure_leaks:
  "vulkan_graphicspipeline_create driver_pipeline_fails world0 vulkan_zero =
     Inr (False,
          \<lparr>heap = [Some [3, 2, 35, 7], Some [3, 2, 35, 7]], next_handle = 4,
           trace = [Malloc 4 1, Malloc 4 2, Create ShaderModule 1, Create ShaderModule 2,
                    Create PipelineLayout 3]\<rparr>,
          vulkan_zero\<lparr>pipeline_layout := 3\<rparr>)"
  by (simp add: vulkan_graphicspipeline_create_def driver_pipeline_fails_def driver0_def
      world0_def readable_file_def file_read_def file_read_cleanup_def ftell_def malloc_def
      fread_def log_call_def vulkan_shadermodule_create_def create_def Let_def)

subsection \<open>The frame\<close>

text \<open>
  C3. The claim: the fence wait has no time limit. The wait is called with 4294967295
  nanoseconds, which is not \<open>UINT64_MAX\<close>, and its result is dropped: when the wait
  times out the frame resets the fence and goes on to acquire, record, submit and
  present.
\<close>

theorem fence_wait_times_out:
  "vulkan_frame_draw frame_timeout w v =
     (True,
      w\<lparr>trace := trace w @
        [VkWaitForFences (frame_in_flight v) 4294967295,
         VkResetFences (frame_in_flight v),
         VkAcquireNextImageKHR (swapchain v) 4294967295 (swapchain_image_available v),
         VkResetCommandBuffer (command_buffer v),
         VkBeginCommandBuffer (command_buffer v),
         VkCmdBeginRenderPass (command_buffer v) (render_pass v) (framebuffer_at v 0),
         VkCmdBindPipeline (command_buffer v) (graphics_pipeline v),
         VkCmdSetViewport (command_buffer v) (swapchain_extent v),
         VkCmdSetScissor (command_buffer v) (swapchain_extent v),
         VkCmdDraw (command_buffer v) 3 1 0 0,
         VkCmdEndRenderPass (command_buffer v),
         VkEndCommandBuffer (command_buffer v),
         VkQueueSubmit (graphics_queue v) (swapchain_image_available v) (command_buffer v)
           (render_finished v) (frame_in_flight v),
         VkQueuePresentKHR (present_queue v) (render_finished v) (swapchain v) 0]\<rparr>)
   \<and> wait_result frame_timeout = VK_TIMEOUT
   \<and> (4294967295 :: u64) \<noteq> UINT64_MAX"
  by (simp add: vulkan_frame_draw_def vulkan_commandbuffer_record_def frame_timeout_def
      log_call_def UINT32_MAX_def UINT64_MAX_def Let_def)

subsection \<open>What a successful stage of start-up does\<close>













lemma file_read_success:
  "file_read f w c s = Inr (True, w', c', s') \<longleftrightarrow>
     readable f \<and>
     w' = w\<lparr>heap := heap w @ [Some (file_bytes f)],
            trace := trace w @ [Malloc (length (file_bytes f)) (Suc (length (heap w)))]\<rparr> \<and>
     c' = Suc (length (heap w)) \<and> s' = length (file_bytes f)"
  by (auto simp: file_read_def file_read_cleanup_def readable_def Let_def malloc_def fread_def
      log_call_def ftell_def split: if_splits prod.splits)









lemma file_read_unreadable:
  "\<not> readable f \<Longrightarrow> file_read f w c s = Inr (ok, w', c', s') \<Longrightarrow> \<not> ok"
  using file_read_success [of f w c s w' c' s'] by auto


text \<open>
  Every exit of \<open>vulkan_graphicspipeline_create\<close> on which
  \<open>vkCreateGraphicsPipelines\<close> has not failed goes through the label \<open>cleanup\<close>:
  each buffer allocated is freed once and each shader module created is destroyed once.
  The exit after a failed \<open>vkCreateGraphicsPipelines\<close> is the only one that does not.
\<close>

lemma file_read_failure_log:
  assumes "file_read f w c s = Inr (False, w', c', s')"
  shows "c' = c \<and> trace w' = trace w @ [Free 0] \<and> heap w' = heap w \<and> next_handle w' = next_handle w \<or>
         c' = c \<and> (\<exists>n. trace w' = trace w @ [Malloc n (Suc (length (heap w))), Free (Suc (length (heap w)))]) \<and>
         heap w' = heap w @ [None] \<and> next_handle w' = next_handle w"
  using assms
  by (auto simp: file_read_def file_read_cleanup_def Let_def malloc_def free_def
        fread_def log_call_def ftell_def 
      split: if_splits prod.splits)


lemma released_once_pipeline:
  assumes run: "vulkan_graphicspipeline_create drv w v = Inr (ok, w', v')"
    and handles: "0 < next_handle w"
    and final: "succeeds drv vkCreateGraphicsPipelines"
  shows "released_once (new_calls w w')"
proof -
  let ?fv = "drv_shader_file drv ''./shaders/vertex.spv''"
  let ?ff = "drv_shader_file drv ''./shaders/fragment.spv''"
  let ?p1 = "Suc (length (heap w))"
  let ?p2 = "Suc (Suc (length (heap w)))"
  let ?h1 = "next_handle w"
  let ?h2 = "Suc (next_handle w)"
  obtain ok1 w1 c1 s1 where first: "file_read ?fv w 0 0 = Inr (ok1, w1, c1, s1)"
    using run by (cases "file_read ?fv w 0 0") (auto simp: vulkan_graphicspipeline_create_def)
  show ?thesis
  proof (cases ok1)
    case False
    with first have "file_read ?fv w 0 0 = Inr (False, w1, c1, s1)" by simp
    from file_read_failure_log [OF this] run first False handles show ?thesis
      by (auto simp: vulkan_graphicspipeline_create_def graphicspipeline_cleanup_def destroy_def
          free_def log_call_def new_calls_def released_once_iff Let_def)
  next
    case True
    with first have first': "file_read ?fv w 0 0 = Inr (True, w1, c1, s1)" by simp
    from first' [THEN file_read_success [THEN iffD1]]
    have w1: "trace w1 = trace w @ [Malloc s1 ?p1]" "heap w1 = heap w @ [Some (file_bytes ?fv)]"
      "next_handle w1 = next_handle w" and c1: "c1 = ?p1"
      by simp_all
    obtain ok2 w2 c2 s2 where second: "file_read ?ff w1 0 0 = Inr (ok2, w2, c2, s2)"
      using run first'
      by (cases "file_read ?ff w1 0 0") (auto simp: vulkan_graphicspipeline_create_def)
    show ?thesis
    proof (cases ok2)
      case False
      with second have "file_read ?ff w1 0 0 = Inr (False, w2, c2, s2)" by simp
      from file_read_failure_log [OF this] run first' second False handles w1 c1 show ?thesis
        by (auto simp: vulkan_graphicspipeline_create_def graphicspipeline_cleanup_def destroy_def
            free_def log_call_def new_calls_def released_once_iff Let_def)
    next
      case True
      with second have second': "file_read ?ff w1 0 0 = Inr (True, w2, c2, s2)" by simp
      from second' [THEN file_read_success [THEN iffD1]] w1
      have w2: "trace w2 = trace w @ [Malloc s1 ?p1, Malloc s2 ?p2]"
        "next_handle w2 = next_handle w" and c2: "c2 = ?p2"
        by simp_all
      from run first' second' final handles w2 c1 c2 show ?thesis
        by (auto simp: vulkan_graphicspipeline_create_def graphicspipeline_cleanup_def
            vulkan_shadermodule_create_def create_def destroy_def
            free_def log_call_def new_calls_def released_once_iff Let_def split: if_splits)
    qed
  qed
qed




subsection \<open>What a failed stage of start-up leaves\<close>


















subsection \<open>Teardown\<close>


















text \<open>
  \<open>main\<close> ends with the teardown of the structure that start-up returned, whether
  start-up has succeeded or failed.
\<close>

lemma main_runs_teardown:
  assumes "main drv frames w0 = Inr (code, w_end)"
  shows "\<exists>ok w app w'.
           application_create main_config drv w0 application_zero = Inr (ok, w, app) \<and>
           w_end = application_destroy w' app"
  using assms by (auto simp: main_def split: sum.splits prod.splits if_splits)



































subsection \<open>The frame loop\<close>

lemma frame_draw_log:
  "vulkan_frame_draw fe w v =
     (acquire_ok fe \<and> reset_commandbuffer_ok fe \<and> begin_commandbuffer_ok fe \<and>
      end_commandbuffer_ok fe \<and> submit_ok fe \<and> present_ok fe,
      w\<lparr>trace := trace w @ take (frame_progress fe) (frame_calls v (image_index fe))\<rparr>)"
  by (simp add: vulkan_frame_draw_def vulkan_commandbuffer_record_def frame_progress_def
      frame_calls_def log_call_def UINT32_MAX_def Let_def)

lemma mainloop_log:
  "application_mainloop frames w app =
     (True,
      w\<lparr>trace := trace w @
          concat (map (\<lambda>fe. take (frame_progress fe)
                               (frame_calls (app_vulkan app) (image_index fe))) frames)\<rparr>)"
  by (induction frames arbitrary: w) (simp_all add: frame_draw_log)

lemma guard_frame_calls: "fence_guards_acquire (frame_in_flight v) (frame_calls v i)"
  by (auto simp: fence_guards_acquire_iff frame_calls_def nth_Cons' split: if_splits)

lemma guard_take: "fence_guards_acquire f cs \<Longrightarrow> fence_guards_acquire f (take k cs)"
  by (auto simp: fence_guards_acquire_iff)

lemma guard_append:
  assumes "fence_guards_acquire f xs" and "fence_guards_acquire f ys"
  shows "fence_guards_acquire f (xs @ ys)"
  unfolding fence_guards_acquire_iff
proof (intro allI impI)
  fix i
  assume i: "i < length (xs @ ys)" and acq: "is_acquire ((xs @ ys) ! i)"
  show "2 \<le> i \<and> (xs @ ys) ! (i - 2) = VkWaitForFences f 4294967295 \<and>
        (xs @ ys) ! (i - 1) = VkResetFences f"
  proof (cases "i < length xs")
    case True
    with acq assms(1) show ?thesis
      by (auto simp: fence_guards_acquire_iff nth_append)
  next
    case False
    define j where "j = i - length xs"
    from False i have j: "j < length ys" "i = length xs + j" by (simp_all add: j_def)
    with acq have "is_acquire (ys ! j)" by (simp add: nth_append)
    with assms(2) j have guarded: "2 \<le> j" "ys ! (j - 2) = VkWaitForFences f 4294967295"
      "ys ! (j - 1) = VkResetFences f"
      by (auto simp: fence_guards_acquire_iff)
    from guarded(1) j(2) have "i - 2 = length xs + (j - 2)" "i - 1 = length xs + (j - 1)"
      by simp_all
    with guarded j(2) show ?thesis by (simp only: nth_append_length_plus) simp
  qed
qed

lemma guard_concat:
  "(\<And>cs. cs \<in> set css \<Longrightarrow> fence_guards_acquire f cs) \<Longrightarrow> fence_guards_acquire f (concat css)"
proof (induction css)
  case Nil
  show ?case by (simp add: fence_guards_acquire_iff)
next
  case (Cons cs css)
  then show ?case by (simp add: guard_append)
qed

text \<open>
  C5. The log of \<open>N\<close> iterations of the main loop is, iteration after iteration, an
  initial part of the calls of a frame in their fixed order: wait for the in-flight
  fence, reset it, acquire an image, reset the command buffer, record it, submit, present.
  Every iteration gets at least as far as the acquisition, so there are \<open>N\<close>
  acquisitions, and each of them comes directly after the wait for the in-flight fence
  and its reset.
\<close>

theorem frame_loop_order:
  assumes "application_mainloop frames w app = (ok, w')"
  shows "new_calls w w' =
           concat (map (\<lambda>fe. take (frame_progress fe)
                                (frame_calls (app_vulkan app) (image_index fe))) frames)
       \<and> (\<forall>fe \<in> set frames. 3 \<le> frame_progress fe \<and> frame_progress fe \<le> 14)
       \<and> length (filter is_acquire (new_calls w w')) = length frames
       \<and> fence_guards_acquire (frame_in_flight (app_vulkan app)) (new_calls w w')"
proof -
  let ?per_frame = "\<lambda>fe. take (frame_progress fe) (frame_calls (app_vulkan app) (image_index fe))"
  from assms have log: "new_calls w w' = concat (map ?per_frame frames)"
    by (auto simp: mainloop_log new_calls_def)
  have progress: "\<forall>fe \<in> set frames. 3 \<le> frame_progress fe \<and> frame_progress fe \<le> 14"
    by (simp add: frame_progress_def)
  have one: "length (filter is_acquire (?per_frame fe)) = 1" for fe
    by (simp add: frame_progress_def frame_calls_def)
  have "length (filter is_acquire (concat (map ?per_frame fs))) = length fs" for fs
    by (induction fs) (simp_all add: one)
  with log have count: "length (filter is_acquire (new_calls w w')) = length frames"
    by simp
  have "fence_guards_acquire (frame_in_flight (app_vulkan app)) (concat (map ?per_frame frames))"
    by (rule guard_concat) (auto intro: guard_take guard_frame_calls)
  with log progress count show ?thesis by simp
qed

theorem frame_loop_order_witness:
  "application_mainloop [frame_timeout, frame_timeout\<lparr>acquire_ok := False\<rparr>] world1 application1 =
     (True, world1\<lparr>trace := trace world1 @
       [VkWaitForFences 21 4294967295, VkResetFences 21, VkAcquireNextImageKHR 5 4294967295 19,
        VkResetCommandBuffer 18, VkBeginCommandBuffer 18, VkCmdBeginRenderPass 18 9 14,
        VkCmdBindPipeline 18 13, VkCmdSetViewport 18 \<lparr>width = 1280, height = 4096\<rparr>,
        VkCmdSetScissor 18 \<lparr>width = 1280, height = 4096\<rparr>, VkCmdDraw 18 3 1 0 0,
        VkCmdEndRenderPass 18, VkEndCommandBuffer 18, VkQueueSubmit 200 19 18 20 21,
        VkQueuePresentKHR 200 20 5 0,
        VkWaitForFences 21 4294967295, VkResetFences 21,
        VkAcquireNextImageKHR 5 4294967295 19]\<rparr>)
   \<and> fence_guards_acquire 21
       [VkWaitForFences 21 4294967295, VkResetFences 21, VkAcquireNextImageKHR 5 4294967295 19,
        VkResetCommandBuffer 18, VkBeginCommandBuffer 18, VkCmdBeginRenderPass 18 9 14,
        VkCmdBindPipeline 18 13, VkCmdSetViewport 18 \<lparr>width = 1280, height = 4096\<rparr>,
        VkCmdSetScissor 18 \<lparr>width = 1280, height = 4096\<rparr>, VkCmdDraw 18 3 1 0 0,
        VkCmdEndRenderPass 18, VkEndCommandBuffer 18, VkQueueSubmit 200 19 18 20 21,
        VkQueuePresentKHR 200 20 5 0,
        VkWaitForFences 21 4294967295, VkResetFences 21,
        VkAcquireNextImageKHR 5 4294967295 19]"
  (is "?run = (True, world1\<lparr>trace := trace world1 @ ?calls\<rparr>) \<and> _")
proof -
  have run: "?run = (True, world1\<lparr>trace := trace world1 @ ?calls\<rparr>)"
    by (simp add: mainloop_log frame_progress_def frame_calls_def frame_timeout_def
        application1_def framebuffer_at_def)
  from frame_loop_order [OF run]
  have "fence_guards_acquire (frame_in_flight (app_vulkan application1))
          (new_calls world1 (world1\<lparr>trace := trace world1 @ ?calls\<rparr>))"
    by blast
  then have "fence_guards_acquire 21 ?calls"
    by (simp add: new_calls_def application1_def)
  with run show ?thesis by simp
qed

end
